theory Spec2Isabelle
  imports Complex_Main "HOL-Library.Multiset" "HOL-Library.Char_ord" "HOL-Library.List_Lexorder"
begin

section \<open>The matching engine of \<^verbatim>\<open>backend/ai/ai_matching.py\<close>\<close>

text \<open>
  The engine scores a candidate profile against a job posting and ranks one side against
  the other. This theory embeds the class \<^verbatim>\<open>AIMatchingEngine\<close> function by function.

  Conventions of the embedding.
  \<^item> A Mongo document is a record with the fields the engine reads. A text field that is
    missing, \<^verbatim>\<open>None\<close> or empty is the empty string: the engine tests these fields by
    truthiness only. The \<^verbatim>\<open>isinstance\<close> filters of the source are the types of the lists.
  \<^item> A Python float is a real number: arithmetic is exact, and \<^verbatim>\<open>round(x, n)\<close> rounds
    \<open>x \<cdot> 10\<^sup>n\<close> to the nearest integer, a tie to the even one.
  \<^item> Strings are ASCII: \<^verbatim>\<open>lower\<close>, \<^verbatim>\<open>title\<close> and \<^verbatim>\<open>strip\<close> act on the ASCII letters and
    the ASCII white space.
  \<^item> An exception is a value \<open>Inl e\<close>; a function that reads or writes the record store or
    calls the embedding model takes the world and returns it.
\<close>

subsection \<open>Strings\<close>

definition is_upper :: "char \<Rightarrow> bool" where
  "is_upper c = (65 \<le> (of_char c :: nat) \<and> (of_char c :: nat) \<le> 90)"

definition is_lower :: "char \<Rightarrow> bool" where
  "is_lower c = (97 \<le> (of_char c :: nat) \<and> (of_char c :: nat) \<le> 122)"

definition lower_char :: "char \<Rightarrow> char" where
  "lower_char c = (if is_upper c then char_of ((of_char c :: nat) + 32) else c)"

definition upper_char :: "char \<Rightarrow> char" where
  "upper_char c = (if is_lower c then char_of ((of_char c :: nat) - 32) else c)"

text \<open>\<^verbatim>\<open>str.lower()\<close>.\<close>

definition lower :: "string \<Rightarrow> string" where
  "lower s = map lower_char s"

text \<open>
  \<^verbatim>\<open>str.title()\<close>: a letter that follows a letter is lowered, any other letter is raised;
  the flag says whether the previous character was a letter.
\<close>

fun title_from :: "bool \<Rightarrow> string \<Rightarrow> string" where
  "title_from prev [] = []"
| "title_from prev (c # cs) =
     (if is_upper c \<or> is_lower c
      then (if prev then lower_char c else upper_char c) # title_from True cs
      else c # title_from False cs)"

definition title :: "string \<Rightarrow> string" where
  "title s = title_from False s"

text \<open>\<^verbatim>\<open>str.isspace()\<close> on one ASCII character, and \<^verbatim>\<open>str.strip()\<close>.\<close>

definition is_space :: "char \<Rightarrow> bool" where
  "is_space c = (let n = (of_char c :: nat) in (9 \<le> n \<and> n \<le> 13) \<or> (28 \<le> n \<and> n \<le> 32))"

definition strip :: "string \<Rightarrow> string" where
  "strip s = rev (dropWhile is_space (rev (dropWhile is_space s)))"

text \<open>\<^verbatim>\<open>sep.join(parts)\<close>.\<close>

fun join :: "string \<Rightarrow> string list \<Rightarrow> string" where
  "join sep [] = []"
| "join sep [p] = p"
| "join sep (p # q # ps) = p @ sep @ join sep (q # ps)"

text \<open>\<^verbatim>\<open>str(n)\<close> for an integer.\<close>

fun digits :: "nat \<Rightarrow> string" where
  "digits n = (if n < 10 then [char_of (48 + n)] else digits (n div 10) @ [char_of (48 + n mod 10)])"

definition str_int :: "int \<Rightarrow> string" where
  "str_int i = (if i < 0 then CHR ''-'' # digits (nat (- i)) else digits (nat i))"

subsection \<open>Numbers\<close>

text \<open>\<^verbatim>\<open>int(x)\<close> of a float: truncation towards zero.\<close>

definition py_int :: "real \<Rightarrow> int" where
  "py_int x = (if 0 \<le> x then \<lfloor>x\<rfloor> else - \<lfloor>- x\<rfloor>)"

text \<open>Rounding to the nearest integer, a tie to the even neighbour.\<close>

definition round_half_even :: "real \<Rightarrow> int" where
  "round_half_even x =
     (let f = \<lfloor>x\<rfloor>; d = x - of_int f
      in if d < 1 / 2 then f else if 1 / 2 < d then f + 1 else if even f then f else f + 1)"

text \<open>\<^verbatim>\<open>round(x, n)\<close> for a float and \<open>n \<ge> 0\<close> digits.\<close>

definition py_round :: "real \<Rightarrow> nat \<Rightarrow> real" where
  "py_round x n = of_int (round_half_even (x * 10 ^ n)) / 10 ^ n"

subsection \<open>Documents\<close>

type_synonym vector = "real list"

text \<open>
  A record identity is the 24 hexadecimal digits of a \<^verbatim>\<open>bson.ObjectId\<close>, in lower case
  (what \<^verbatim>\<open>str\<close> gives back).
\<close>

type_synonym object_id = string

record skill_item =
  skill_name :: string
  skill_level :: int

record experience_item =
  exp_role :: string
  exp_description :: string

record education_item =
  edu_degree :: string
  edu_institution :: string

record portfolio_item =
  port_title :: string
  port_description :: string

record candidate =
  cand_id :: "object_id option"
  email :: string
  password :: "string option"
  bio :: string
  skills :: "skill_item list"
  experience :: "experience_item list"
  education :: "education_item list"
  portfolio :: "portfolio_item list"
  cand_embedding :: "vector option"

record job =
  job_id :: "object_id option"
  job_title :: string
  company :: string
  job_description :: string
  required_skills :: "string list"
  job_type :: string
  location :: string
  source :: string
  job_embedding :: "vector option"

text \<open>
  Truthiness of the \<^verbatim>\<open>embedding\<close> field, as \<^verbatim>\<open>doc.get("embedding")\<close> is tested: a missing
  field, \<^verbatim>\<open>None\<close> and the empty list are all false.
\<close>

definition truthy :: "vector option \<Rightarrow> bool" where
  "truthy e = (case e of None \<Rightarrow> False | Some v \<Rightarrow> v \<noteq> [])"

subsection \<open>Text extraction\<close>

definition skill_phrase :: "skill_item \<Rightarrow> string" where
  "skill_phrase s =
     skill_name s @ '' ('' @ str_int (py_int (real_of_int (skill_level s) / 10)) @ '' stars)''"

definition experience_parts :: "experience_item \<Rightarrow> string list" where
  "experience_parts e =
     (if exp_role e \<noteq> [] then [exp_role e] else []) @
     (if exp_description e \<noteq> [] then [exp_description e] else [])"

definition education_parts :: "education_item \<Rightarrow> string list" where
  "education_parts e =
     (if edu_degree e \<noteq> [] then [edu_degree e] else []) @
     (if edu_institution e \<noteq> [] then [edu_institution e] else [])"

definition portfolio_parts :: "portfolio_item \<Rightarrow> string list" where
  "portfolio_parts p =
     (if port_title p \<noteq> [] then [port_title p] else []) @
     (if port_description p \<noteq> [] then [port_description p] else [])"

definition extract_candidate_text :: "candidate \<Rightarrow> string" where
  "extract_candidate_text c =
     (let text_parts =
        (if bio c \<noteq> [] then [bio c] else []) @
        (if skills c \<noteq> []
         then [join '' '' (map skill_phrase (filter (\<lambda>s. skill_name s \<noteq> []) (skills c)))]
         else []) @
        concat (map experience_parts (experience c)) @
        concat (map education_parts (education c)) @
        concat (map portfolio_parts (portfolio c))
      in strip (join '' '' text_parts))"

definition extract_job_text :: "job \<Rightarrow> string" where
  "extract_job_text j =
     (let text_parts =
        (if job_title j \<noteq> [] then [job_title j] else []) @
        (if company j \<noteq> [] then [company j] else []) @
        (if job_description j \<noteq> [] then [job_description j] else []) @
        (if required_skills j \<noteq> [] then [join '' '' (required_skills j)] else []) @
        (if job_type j \<noteq> [] then [job_type j] else []) @
        (if location j \<noteq> [] then [location j] else [])
      in strip (join '' '' text_parts))"

subsection \<open>Skill overlap, cosine similarity, experience boost\<close>

text \<open>
  The dictionary comprehension of \<^verbatim>\<open>_calculate_skill_match\<close>: skills are entered in list
  order under their lowered name, a later entry replacing an earlier one; a skill without a
  name is skipped.
\<close>

definition cand_skills :: "skill_item list \<Rightarrow> (string \<rightharpoonup> int)" where
  "cand_skills ss =
     fold (\<lambda>s m. if skill_name s \<noteq> [] then m(lower (skill_name s) \<mapsto> skill_level s) else m)
       ss Map.empty"

text \<open>One turn of the loop over the required skills, on \<open>(total_weight, matched_weight)\<close>.\<close>

definition skill_step :: "(string \<rightharpoonup> int) \<Rightarrow> string \<Rightarrow> nat \<times> real \<Rightarrow> nat \<times> real" where
  "skill_step m skill acc =
     (case acc of (total_weight, matched_weight) \<Rightarrow>
        (total_weight + 1,
         (case m skill of
            Some lvl \<Rightarrow> matched_weight + real_of_int lvl / 100
          | None \<Rightarrow> matched_weight)))"

definition calculate_skill_match :: "candidate \<Rightarrow> job \<Rightarrow> real" where
  "calculate_skill_match c j =
     (if required_skills j = [] then 0
      else let required = map lower (required_skills j)
           in if skills c = [] then 0
              else (case fold (skill_step (cand_skills (skills c))) required (0, 0) of
                      (total_weight, matched_weight) \<Rightarrow>
                        if total_weight = 0 then 0 else matched_weight / real total_weight))"

datatype error =
  InvalidId | ProviderError | StoreError | KeyError | ValueError | AttributeError
  | TypeError | OverflowError | ZeroDivisionError

definition norm2 :: "vector \<Rightarrow> real" where
  "norm2 a = sqrt (sum_list (map (\<lambda>x. x * x) a))"

text \<open>\<^verbatim>\<open>np.dot\<close> of two one-dimensional arrays: it raises when the lengths differ.\<close>

definition dot :: "vector \<Rightarrow> vector \<Rightarrow> error + real" where
  "dot a b =
     (if length a = length b then Inr (sum_list (map (\<lambda>(x, y). x * y) (zip a b)))
      else Inl ValueError)"

definition cosine_similarity :: "vector option \<Rightarrow> vector option \<Rightarrow> error + real" where
  "cosine_similarity a b =
     (case (a, b) of
        (Some va, Some vb) \<Rightarrow>
          (let denom = norm2 va * norm2 vb
           in if denom = 0 then Inr 0
              else (case dot va vb of Inl e \<Rightarrow> Inl e | Inr d \<Rightarrow> Inr (d / denom)))
      | _ \<Rightarrow> Inr 0)"

definition calculate_experience_boost :: "candidate \<Rightarrow> real" where
  "calculate_experience_boost c =
     (if experience c = [] then 0 else min (real (length (experience c)) * 0.05) 0.2)"

subsection \<open>The collaborators: identity codec, embedding model, record store\<close>

text \<open>
  The engine reaches three things outside the repository, and the embedding takes them as
  the environment of a call:
  \<^item> \<open>object_id\<close> is \<^verbatim>\<open>bson.ObjectId(s)\<close>: the identity a string denotes, \<open>None\<close> where the
    constructor raises \<^verbatim>\<open>InvalidId\<close>;
  \<^item> \<open>encode\<close> is \<^verbatim>\<open>SentenceTransformer.encode\<close>, a function of the text: the vector, \<open>None\<close>
    where the model raises;
  \<^item> \<open>find_ok\<close> and \<open>update_ok\<close> say whether the reads (\<^verbatim>\<open>find\<close>, \<^verbatim>\<open>find_one\<close>) and the writes
    (\<^verbatim>\<open>update_one\<close>) of the store succeed; a failing operation raises and changes nothing.

  The world is the two collections, in retrieval order, and the number of times the
  embedding model has been invoked. \<^verbatim>\<open>get_collection\<close> only hands out a collection.
\<close>

record env =
  object_id :: "string \<Rightarrow> object_id option"
  encode :: "string \<Rightarrow> vector option"
  find_ok :: bool
  update_ok :: bool

record world =
  candidates :: "candidate list"
  jobs :: "job list"
  calls :: nat

type_synonym 'a outcome = "(error + 'a) \<times> world"

text \<open>\<^verbatim>\<open>bson.ObjectId(s)\<close>: the codec's identity, or \<^verbatim>\<open>InvalidId\<close>.\<close>

definition ObjectId :: "env \<Rightarrow> string \<Rightarrow> error + object_id" where
  "ObjectId en s = (case object_id en s of None \<Rightarrow> Inl InvalidId | Some i \<Rightarrow> Inr i)"

text \<open>\<^verbatim>\<open>collection.find_one(query)\<close>: the first document that matches.\<close>

definition find_one :: "env \<Rightarrow> ('a \<Rightarrow> bool) \<Rightarrow> 'a list \<Rightarrow> error + 'a option" where
  "find_one en q docs = (if find_ok en then Inr (find q docs) else Inl StoreError)"

text \<open>\<^verbatim>\<open>list(collection.find(query))\<close>: the documents that match, in retrieval order.\<close>

definition find_all :: "env \<Rightarrow> ('a \<Rightarrow> bool) \<Rightarrow> 'a list \<Rightarrow> error + 'a list" where
  "find_all en q docs = (if find_ok en then Inr (filter q docs) else Inl StoreError)"

text \<open>
  \<^verbatim>\<open>collection.update_one(query, {"$set": ...}, upsert=False)\<close>: the first document that
  matches is changed, and nothing is inserted when none does.
\<close>

fun set_first :: "('a \<Rightarrow> bool) \<Rightarrow> ('a \<Rightarrow> 'a) \<Rightarrow> 'a list \<Rightarrow> 'a list" where
  "set_first q f [] = []"
| "set_first q f (x # xs) = (if q x then f x # xs else x # set_first q f xs)"

definition update_one :: "env \<Rightarrow> ('a \<Rightarrow> bool) \<Rightarrow> ('a \<Rightarrow> 'a) \<Rightarrow> 'a list \<Rightarrow> error + 'a list" where
  "update_one en q f docs = (if update_ok en then Inr (set_first q f docs) else Inl StoreError)"

subsection \<open>Embedding and storing\<close>

definition encode_text :: "env \<Rightarrow> string \<Rightarrow> world \<Rightarrow> vector option outcome" where
  "encode_text en text w =
     (if text = [] then (Inr None, w)
      else (case encode en text of
              None \<Rightarrow> (Inl ProviderError, w\<lparr>calls := calls w + 1\<rparr>)
            | Some emb \<Rightarrow> (Inr (Some emb), w\<lparr>calls := calls w + 1\<rparr>)))"

definition embed_and_store_job :: "env \<Rightarrow> job \<Rightarrow> world \<Rightarrow> vector option outcome" where
  "embed_and_store_job en j w =
     (let job_text = extract_job_text j
      in if job_text = [] then (Inr None, w)
         else (case encode_text en job_text w of
                 (Inl e, w1) \<Rightarrow> (Inl e, w1)
               | (Inr None, w1) \<Rightarrow> (Inr None, w1)
               | (Inr (Some emb), w1) \<Rightarrow>
                   (case job_id j of
                      None \<Rightarrow> (Inl KeyError, w1)
                    | Some i \<Rightarrow>
                        (case update_one en (\<lambda>d. job_id d = Some i)
                                (\<lambda>d. d\<lparr>job_embedding := Some emb\<rparr>) (jobs w1) of
                           Inl e \<Rightarrow> (Inl e, w1)
                         | Inr js \<Rightarrow> (Inr (Some emb), w1\<lparr>jobs := js\<rparr>)))))"

definition embed_and_store_candidate :: "env \<Rightarrow> candidate \<Rightarrow> world \<Rightarrow> vector option outcome" where
  "embed_and_store_candidate en c w =
     (let cand_text = extract_candidate_text c
      in if cand_text = [] then (Inr None, w)
         else (case encode_text en cand_text w of
                 (Inl e, w1) \<Rightarrow> (Inl e, w1)
               | (Inr None, w1) \<Rightarrow> (Inr None, w1)
               | (Inr (Some emb), w1) \<Rightarrow>
                   (case cand_id c of
                      None \<Rightarrow> (Inl KeyError, w1)
                    | Some i \<Rightarrow>
                        (case update_one en (\<lambda>d. cand_id d = Some i)
                                (\<lambda>d. d\<lparr>cand_embedding := Some emb\<rparr>) (candidates w1) of
                           Inl e \<Rightarrow> (Inl e, w1)
                         | Inr cs \<Rightarrow> (Inr (Some emb), w1\<lparr>candidates := cs\<rparr>)))))"

subsection \<open>The composite score\<close>

text \<open>The body of the first \<^verbatim>\<open>try\<close> of \<^verbatim>\<open>calculate_match_score\<close>.\<close>

definition try_candidate_embedding ::
  "env \<Rightarrow> candidate \<Rightarrow> string \<Rightarrow> world \<Rightarrow> vector option outcome" where
  "try_candidate_embedding en c cand_text w =
     (case cand_id c of
        Some i \<Rightarrow>
          (case find_one en (\<lambda>d. cand_id d = Some i) (candidates w) of
             Inl e \<Rightarrow> (Inl e, w)
           | Inr (Some cand_db) \<Rightarrow>
               if truthy (cand_embedding cand_db) then (Inr (cand_embedding cand_db), w)
               else embed_and_store_candidate en c w
           | Inr None \<Rightarrow> embed_and_store_candidate en c w)
      | None \<Rightarrow> encode_text en cand_text w)"

text \<open>The first \<^verbatim>\<open>try\<close> with its handler, which encodes the text again.\<close>

definition resolve_candidate_embedding ::
  "env \<Rightarrow> candidate \<Rightarrow> string \<Rightarrow> world \<Rightarrow> vector option outcome" where
  "resolve_candidate_embedding en c cand_text w =
     (case try_candidate_embedding en c cand_text w of
        (Inl e, w1) \<Rightarrow> encode_text en cand_text w1
      | (Inr emb, w1) \<Rightarrow> (Inr emb, w1))"

definition try_job_embedding :: "env \<Rightarrow> job \<Rightarrow> string \<Rightarrow> world \<Rightarrow> vector option outcome" where
  "try_job_embedding en j job_text w =
     (case job_id j of
        Some i \<Rightarrow>
          (case find_one en (\<lambda>d. job_id d = Some i) (jobs w) of
             Inl e \<Rightarrow> (Inl e, w)
           | Inr (Some job_db) \<Rightarrow>
               if truthy (job_embedding job_db) then (Inr (job_embedding job_db), w)
               else embed_and_store_job en j w
           | Inr None \<Rightarrow> embed_and_store_job en j w)
      | None \<Rightarrow> encode_text en job_text w)"

definition resolve_job_embedding :: "env \<Rightarrow> job \<Rightarrow> string \<Rightarrow> world \<Rightarrow> vector option outcome" where
  "resolve_job_embedding en j job_text w =
     (case try_job_embedding en j job_text w of
        (Inl e, w1) \<Rightarrow> encode_text en job_text w1
      | (Inr emb, w1) \<Rightarrow> (Inr emb, w1))"

text \<open>The last three lines of \<^verbatim>\<open>calculate_match_score\<close>, from the three signals.\<close>

definition final_score :: "real \<Rightarrow> real \<Rightarrow> real \<Rightarrow> real" where
  "final_score semantic_sim skill_score exp_boost =
     py_round (max 0 (min 1 (0.6 * semantic_sim + 0.3 * skill_score + 0.1 * exp_boost))) 3"

definition calculate_match_score :: "env \<Rightarrow> candidate \<Rightarrow> job \<Rightarrow> world \<Rightarrow> real outcome" where
  "calculate_match_score en c j w =
     (let cand_text = extract_candidate_text c; job_text = extract_job_text j
      in if cand_text = [] \<or> job_text = [] then (Inr 0, w)
         else (case resolve_candidate_embedding en c cand_text w of
                 (Inl e, w1) \<Rightarrow> (Inl e, w1)
               | (Inr candidate_emb, w1) \<Rightarrow>
                   (case resolve_job_embedding en j job_text w1 of
                      (Inl e, w2) \<Rightarrow> (Inl e, w2)
                    | (Inr job_emb, w2) \<Rightarrow>
                        (case cosine_similarity candidate_emb job_emb of
                           Inl e \<Rightarrow> (Inl e, w2)
                         | Inr semantic_sim \<Rightarrow>
                             (Inr (final_score semantic_sim (calculate_skill_match c j)
                                     (calculate_experience_boost c)), w2)))))"

subsection \<open>Search\<close>

text \<open>\<^verbatim>\<open>xs[:n]\<close>: a negative \<open>n\<close> counts from the end.\<close>

definition slice_to :: "int \<Rightarrow> 'a list \<Rightarrow> 'a list" where
  "slice_to n xs = (if 0 \<le> n then take (nat n) xs else take (nat (int (length xs) + n)) xs)"

text \<open>
  \<^verbatim>\<open>scored.sort(key=lambda x: x.get("match_score", 0), reverse=True)\<close>: a stable sort,
  the larger score first. A scored document is the pair of the document and its score.
\<close>

definition sort_by_score :: "('a \<times> real) list \<Rightarrow> ('a \<times> real) list" where
  "sort_by_score scored = sort_key (\<lambda>x. - snd x) scored"

text \<open>
  \<^verbatim>\<open>query = {"source": source} if source else {}\<close>: no source and the empty string select
  every job.
\<close>

definition source_query :: "string option \<Rightarrow> job \<Rightarrow> bool" where
  "source_query src =
     (case src of
        None \<Rightarrow> (\<lambda>j. True)
      | Some sc \<Rightarrow> if sc \<noteq> [] then (\<lambda>j. source j = sc) else (\<lambda>j. True))"

text \<open>The loop of \<^verbatim>\<open>find_matching_jobs_for_candidate\<close>, on the candidate as reloaded.\<close>

fun score_jobs :: "env \<Rightarrow> candidate option \<Rightarrow> job list \<Rightarrow> world \<Rightarrow> (job \<times> real) list outcome" where
  "score_jobs en candidate [] w = (Inr [], w)"
| "score_jobs en candidate (j # js) w =
     (case candidate of
        None \<Rightarrow> (Inl AttributeError, w)
      | Some c \<Rightarrow>
          (case calculate_match_score en c j w of
             (Inl e, w1) \<Rightarrow> (Inl e, w1)
           | (Inr score, w1) \<Rightarrow>
               (case job_id j of
                  None \<Rightarrow> (Inl KeyError, w1)
                | Some i \<Rightarrow>
                    (case score_jobs en candidate js w1 of
                       (Inl e, w2) \<Rightarrow> (Inl e, w2)
                     | (Inr scored, w2) \<Rightarrow> (Inr ((j, score) # scored), w2)))))"

definition find_matching_jobs_for_candidate ::
  "env \<Rightarrow> string \<Rightarrow> int \<Rightarrow> string option \<Rightarrow> world \<Rightarrow> (job \<times> real) list outcome" where
  "find_matching_jobs_for_candidate en candidate_email top_n src w =
     (case find_one en (\<lambda>c. email c = candidate_email) (candidates w) of
        Inl e \<Rightarrow> (Inl e, w)
      | Inr None \<Rightarrow> (Inr [], w)
      | Inr (Some candidate) \<Rightarrow>
          (case (if \<not> truthy (cand_embedding candidate)
                 then (case embed_and_store_candidate en candidate w of
                         (Inl e, w1) \<Rightarrow> (Inl e, w1)
                       | (Inr _, w1) \<Rightarrow>
                           (case cand_id candidate of
                              None \<Rightarrow> (Inl KeyError, w1)
                            | Some i \<Rightarrow>
                                (case find_one en (\<lambda>d. cand_id d = Some i) (candidates w1) of
                                   Inl e \<Rightarrow> (Inl e, w1)
                                 | Inr reloaded \<Rightarrow> (Inr reloaded, w1))))
                 else (Inr (Some candidate), w)) of
             (Inl e, w1) \<Rightarrow> (Inl e, w1)
           | (Inr candidate1, w1) \<Rightarrow>
               (case find_all en (source_query src) (jobs w1) of
                  Inl e \<Rightarrow> (Inl e, w1)
                | Inr js \<Rightarrow>
                    (case score_jobs en candidate1 js w1 of
                       (Inl e, w2) \<Rightarrow> (Inl e, w2)
                     | (Inr scored, w2) \<Rightarrow> (Inr (slice_to top_n (sort_by_score scored)), w2)))))"

text \<open>The loop of \<^verbatim>\<open>find_matching_candidates_for_job\<close>, on the job as reloaded.\<close>

fun score_candidates ::
  "env \<Rightarrow> job option \<Rightarrow> candidate list \<Rightarrow> world \<Rightarrow> (candidate \<times> real) list outcome" where
  "score_candidates en jb [] w = (Inr [], w)"
| "score_candidates en jb (c # cs) w =
     (case (if \<not> truthy (cand_embedding c)
            then (case embed_and_store_candidate en c w of
                    (Inl e, w1) \<Rightarrow> (Inl e, w1)
                  | (Inr _, w1) \<Rightarrow>
                      (case cand_id c of
                         None \<Rightarrow> (Inl KeyError, w1)
                       | Some i \<Rightarrow>
                           (case find_one en (\<lambda>d. cand_id d = Some i) (candidates w1) of
                              Inl e \<Rightarrow> (Inl e, w1)
                            | Inr reloaded \<Rightarrow> (Inr reloaded, w1))))
            else (Inr (Some c), w)) of
        (Inl e, w1) \<Rightarrow> (Inl e, w1)
      | (Inr None, w1) \<Rightarrow> (Inl AttributeError, w1)
      | (Inr (Some candidate), w1) \<Rightarrow>
          (case jb of
             None \<Rightarrow> (Inl AttributeError, w1)
           | Some j \<Rightarrow>
               (case calculate_match_score en candidate j w1 of
                  (Inl e, w2) \<Rightarrow> (Inl e, w2)
                | (Inr score, w2) \<Rightarrow>
                    (case cand_id candidate of
                       None \<Rightarrow> (Inl KeyError, w2)
                     | Some i \<Rightarrow>
                         (case score_candidates en jb cs w2 of
                            (Inl e, w3) \<Rightarrow> (Inl e, w3)
                          | (Inr scored, w3) \<Rightarrow> (Inr ((candidate, score) # scored), w3))))))"

definition find_matching_candidates_for_job ::
  "env \<Rightarrow> string \<Rightarrow> int \<Rightarrow> world \<Rightarrow> (candidate \<times> real) list outcome" where
  "find_matching_candidates_for_job en job_id_str top_n w =
     (case (case ObjectId en job_id_str of
              Inl e \<Rightarrow> Inl e
            | Inr i \<Rightarrow> find_one en (\<lambda>d. job_id d = Some i) (jobs w)) of
        Inl e \<Rightarrow> (Inr [], w)
      | Inr None \<Rightarrow> (Inr [], w)
      | Inr (Some jb) \<Rightarrow>
          (case (if \<not> truthy (job_embedding jb)
                 then (case embed_and_store_job en jb w of
                         (Inl e, w1) \<Rightarrow> (Inl e, w1)
                       | (Inr _, w1) \<Rightarrow>
                           (case job_id jb of
                              None \<Rightarrow> (Inl KeyError, w1)
                            | Some i \<Rightarrow>
                                (case find_one en (\<lambda>d. job_id d = Some i) (jobs w1) of
                                   Inl e \<Rightarrow> (Inl e, w1)
                                 | Inr reloaded \<Rightarrow> (Inr reloaded, w1))))
                 else (Inr (Some jb), w)) of
             (Inl e, w1) \<Rightarrow> (Inl e, w1)
           | (Inr jb1, w1) \<Rightarrow>
               (case find_all en (\<lambda>c. True) (candidates w1) of
                  Inl e \<Rightarrow> (Inl e, w1)
                | Inr cs \<Rightarrow>
                    (case score_candidates en jb1 (map (\<lambda>c. c\<lparr>password := None\<rparr>) cs) w1 of
                       (Inl e, w2) \<Rightarrow> (Inl e, w2)
                     | (Inr scored, w2) \<Rightarrow> (Inr (slice_to top_n (sort_by_score scored)), w2)))))"

subsection \<open>Skill gaps\<close>

record gap_report =
  report_job_title :: string
  match_percentage :: real
  matching_skills :: "string list"
  missing_skills :: "string list"
  total_required :: nat
  recommendations :: "string list"

text \<open>The dictionary returned: the one with the key \<^verbatim>\<open>error\<close>, or the report.\<close>

datatype gap_outcome = GapError string | GapReport gap_report

definition generate_recommendations :: "string list \<Rightarrow> string list" where
  "generate_recommendations missing =
     map (\<lambda>s. ''Consider learning '' @ title s @ '' through online courses or certifications'')
       (slice_to 5 missing)"

definition analyze_skill_gaps :: "env \<Rightarrow> string \<Rightarrow> string \<Rightarrow> world \<Rightarrow> error + gap_outcome" where
  "analyze_skill_gaps en candidate_email job_id_str w =
     (case find_one en (\<lambda>c. email c = candidate_email) (candidates w) of
        Inl e \<Rightarrow> Inl e
      | Inr candidate \<Rightarrow>
          (case (case ObjectId en job_id_str of
                   Inl e \<Rightarrow> Inl e
                 | Inr i \<Rightarrow> find_one en (\<lambda>d. job_id d = Some i) (jobs w)) of
             Inl e \<Rightarrow> Inr (GapError ''Invalid job ID'')
           | Inr jb \<Rightarrow>
               (case (candidate, jb) of
                  (Some c, Some j) \<Rightarrow>
                    (let candidate_skills = set (map (\<lambda>s. lower (skill_name s)) (skills c));
                         required = set (map lower (required_skills j));
                         missing = sorted_list_of_set (required - candidate_skills);
                         matching = sorted_list_of_set (required \<inter> candidate_skills)
                     in Inr (GapReport
                          \<lparr>report_job_title = job_title j,
                           match_percentage =
                             (if 0 < card required
                              then py_round (real (length matching) / real (card required) * 100) 1
                              else 0),
                           matching_skills = matching,
                           missing_skills = missing,
                           total_required = card required,
                           recommendations = generate_recommendations missing\<rparr>))
                | _ \<Rightarrow> Inr (GapError ''Candidate or job not found''))))"

section \<open>The skill overlap in the words of the specification\<close>

text \<open>
  The mapping the specification describes: a name, compared without case, maps to the level
  of the last skill of the list that carries it.
\<close>

definition last_wins :: "skill_item list \<Rightarrow> string \<Rightarrow> int option" where
  "last_wins ss k =
     (case filter (\<lambda>s. skill_name s \<noteq> [] \<and> lower (skill_name s) = k) ss of
        [] \<Rightarrow> None
      | x # xs \<Rightarrow> Some (skill_level (last (x # xs))))"

text \<open>What one required skill adds to the matched weight.\<close>

definition skill_weight :: "skill_item list \<Rightarrow> string \<Rightarrow> real" where
  "skill_weight ss r = (case last_wins ss (lower r) of Some l \<Rightarrow> real_of_int l / 100 | None \<Rightarrow> 0)"

definition skill_match_spec :: "candidate \<Rightarrow> job \<Rightarrow> real" where
  "skill_match_spec c j =
     (if required_skills j = [] \<or> skills c = [] then 0
      else sum_list (map (skill_weight (skills c)) (required_skills j))
             / real (length (required_skills j)))"

section \<open>Conditions on the collaborators\<close>




section \<open>Steps of the search operations, named for the proofs\<close>

text \<open>
  The first step of \<^verbatim>\<open>find_matching_jobs_for_candidate\<close> after the candidate is found, which is
  also the first step of each turn of the loop of \<^verbatim>\<open>find_matching_candidates_for_job\<close>: embed
  and store when the \<^verbatim>\<open>embedding\<close> field is not truthy, then read the document again.
\<close>

definition reload_candidate :: "env \<Rightarrow> candidate \<Rightarrow> world \<Rightarrow> candidate option outcome" where
  "reload_candidate en candidate w =
     (if \<not> truthy (cand_embedding candidate)
      then (case embed_and_store_candidate en candidate w of
              (Inl e, w1) \<Rightarrow> (Inl e, w1)
            | (Inr _, w1) \<Rightarrow>
                (case cand_id candidate of
                   None \<Rightarrow> (Inl KeyError, w1)
                 | Some i \<Rightarrow>
                     (case find_one en (\<lambda>d. cand_id d = Some i) (candidates w1) of
                        Inl e \<Rightarrow> (Inl e, w1)
                      | Inr reloaded \<Rightarrow> (Inr reloaded, w1))))
      else (Inr (Some candidate), w))"

text \<open>The same step on the job, in \<^verbatim>\<open>find_matching_candidates_for_job\<close>.\<close>

definition reload_job :: "env \<Rightarrow> job \<Rightarrow> world \<Rightarrow> job option outcome" where
  "reload_job en jb w =
     (if \<not> truthy (job_embedding jb)
      then (case embed_and_store_job en jb w of
              (Inl e, w1) \<Rightarrow> (Inl e, w1)
            | (Inr _, w1) \<Rightarrow>
                (case job_id jb of
                   None \<Rightarrow> (Inl KeyError, w1)
                 | Some i \<Rightarrow>
                     (case find_one en (\<lambda>d. job_id d = Some i) (jobs w1) of
                        Inl e \<Rightarrow> (Inl e, w1)
                      | Inr reloaded \<Rightarrow> (Inr reloaded, w1))))
      else (Inr (Some jb), w))"

section \<open>One candidate record among the candidates\<close>

text \<open>
  The identity \<open>i\<close> stands for one profile: a stored candidate has it, and every stored
  candidate that has it has the extracted text \<open>tx\<close>.
\<close>

definition one_profile :: "object_id \<Rightarrow> string \<Rightarrow> candidate list \<Rightarrow> bool" where
  "one_profile i tx cs \<longleftrightarrow>
     (\<forall>r. r \<in> set cs \<and> cand_id r = Some i \<longrightarrow> extract_candidate_text r = tx)
     \<and> (\<exists>r. find (\<lambda>d. cand_id d = Some i) cs = Some r)"

text \<open>The record found under the identity \<open>i\<close> carries the embedding \<open>v\<close>.\<close>

definition embedded :: "object_id \<Rightarrow> vector \<Rightarrow> candidate list \<Rightarrow> bool" where
  "embedded i v cs \<longleftrightarrow> (\<exists>r. find (\<lambda>d. cand_id d = Some i) cs = Some r \<and> cand_embedding r = Some v)"

section \<open>Sample documents\<close>

definition sample_experience :: experience_item where
  "sample_experience = \<lparr>exp_role = ''Engineer'', exp_description = ''Built services''\<rparr>"

definition sample_candidate :: candidate where
  "sample_candidate =
     \<lparr>cand_id = Some ''65f0a1b2c3d4e5f601234567'', email = ''ada@example.org'',
      password = None, bio = ''Backend developer'',
      skills = [\<lparr>skill_name = ''Python'', skill_level = 80\<rparr>],
      experience = [sample_experience], education = [], portfolio = [],
      cand_embedding = None\<rparr>"

definition sample_job :: job where
  "sample_job =
     \<lparr>job_id = Some ''65f0a1b2c3d4e5f6012345aa'', job_title = ''Data engineer'',
      company = ''Acme'', job_description = ''Pipelines'',
      required_skills = [''python'', ''sql''], job_type = ''Full-time'', location = ''Tunis'',
      source = ''hr'', job_embedding = None\<rparr>"

text \<open>An identity codec as \<^verbatim>\<open>bson\<close> documents it: exactly the strings of 24 hexadecimal digits.\<close>

definition is_hex :: "char \<Rightarrow> bool" where
  "is_hex c =
     (let n = (of_char c :: nat)
      in (48 \<le> n \<and> n \<le> 57) \<or> (65 \<le> n \<and> n \<le> 70) \<or> (97 \<le> n \<and> n \<le> 102))"

definition hex24 :: "string \<Rightarrow> object_id option" where
  "hex24 s = (if length s = 24 \<and> list_all is_hex s then Some (lower s) else None)"

text \<open>
  A model that maps a text to one of two vectors of two components, by the parity of its
  length, and a store that works.
\<close>

definition sample_env :: env where
  "sample_env =
     \<lparr>object_id = hex24, encode = (\<lambda>t. Some (if even (length t) then [3, 4] else [4, 3])),
      find_ok = True, update_ok = True\<rparr>"

definition sample_world :: world where
  "sample_world = \<lparr>candidates = [sample_candidate], jobs = [sample_job], calls = 0\<rparr>"



text \<open>The sample store with both embeddings present and empty.\<close>

definition sample_world_empty :: world where
  "sample_world_empty =
     \<lparr>candidates = [sample_candidate\<lparr>cand_embedding := Some []\<rparr>],
      jobs = [sample_job\<lparr>job_embedding := Some []\<rparr>], calls = 0\<rparr>"

section \<open>The three signals\<close>

subsection \<open>Experience boost\<close>

lemma boost_eq: "calculate_experience_boost c = min (real (length (experience c)) * 0.05) 0.2"
  by (simp add: calculate_experience_boost_def)

text \<open>
  Claim C9. The experience boost is \<open>min (count \<cdot> 0.05) 0.2\<close> of the number of experience
  entries: it never exceeds 0.2, it does not decrease when the number of entries grows, and
  it is 0 for no entry and 0.2 for 4 and for 10 entries.
\<close>

theorem experience_boost_spec:
  "calculate_experience_boost c = min (real (length (experience c)) * 0.05) 0.2
   \<and> calculate_experience_boost c \<le> 0.2
   \<and> (length (experience c) \<le> length (experience c')
        \<longrightarrow> calculate_experience_boost c \<le> calculate_experience_boost c')
   \<and> calculate_experience_boost (c\<lparr>experience := []\<rparr>) = 0
   \<and> calculate_experience_boost (c\<lparr>experience := replicate 4 e\<rparr>) = 0.2
   \<and> calculate_experience_boost (c\<lparr>experience := replicate 10 e\<rparr>) = 0.2"
  by (simp add: boost_eq min_def)

theorem experience_boost_spec_witness:
  "length (experience sample_candidate)
     \<le> length (experience (sample_candidate\<lparr>experience := replicate 3 sample_experience\<rparr>))
   \<and> calculate_experience_boost sample_candidate = 0.05
   \<and> calculate_experience_boost (sample_candidate\<lparr>experience := replicate 3 sample_experience\<rparr>) = 0.15
   \<and> calculate_experience_boost sample_candidate
       \<le> calculate_experience_boost (sample_candidate\<lparr>experience := replicate 3 sample_experience\<rparr>)"
  using experience_boost_spec [of sample_candidate
          "sample_candidate\<lparr>experience := replicate 3 sample_experience\<rparr>" sample_experience]
  by (simp add: sample_candidate_def boost_eq)

subsection \<open>Cosine similarity\<close>







subsection \<open>Skill overlap\<close>


lemma last_wins_Cons:
  "last_wins (s # ss) k =
     (case last_wins ss k of
        Some l \<Rightarrow> Some l
      | None \<Rightarrow> if skill_name s \<noteq> [] \<and> lower (skill_name s) = k then Some (skill_level s) else None)"
proof (cases "filter (\<lambda>s. skill_name s \<noteq> [] \<and> lower (skill_name s) = k) ss")
  case Nil
  then show ?thesis by (simp add: last_wins_def)
next
  case (Cons x xs)
  then show ?thesis by (simp add: last_wins_def)
qed

lemma fold_cand_skills:
  "fold (\<lambda>s m. if skill_name s \<noteq> [] then m(lower (skill_name s) \<mapsto> skill_level s) else m) ss m0 k
     = (case last_wins ss k of None \<Rightarrow> m0 k | Some l \<Rightarrow> Some l)"
proof (induction ss arbitrary: m0)
  case Nil
  then show ?case by (simp add: last_wins_def)
next
  case (Cons s ss)
  show ?case
    by (simp add: Cons.IH last_wins_Cons split: option.splits)
qed

lemma cand_skills_last_wins: "cand_skills ss k = last_wins ss k"
  by (simp add: cand_skills_def fold_cand_skills split: option.splits)



lemma fold_skill_step:
  "fold (skill_step m) req (t, a)
     = (t + length req,
        a + sum_list (map (\<lambda>k. case m k of Some l \<Rightarrow> real_of_int l / 100 | None \<Rightarrow> 0) req))"
  by (induction req arbitrary: t a) (auto simp add: skill_step_def split: option.splits)

lemma calculate_skill_match_refines: "calculate_skill_match c j = skill_match_spec c j"
proof -
  have w: "(\<lambda>k. case cand_skills (skills c) k of Some l \<Rightarrow> real_of_int l / 100 | None \<Rightarrow> 0) \<circ> lower
             = skill_weight (skills c)"
    by (rule ext) (simp add: skill_weight_def cand_skills_last_wins)
  show ?thesis
    by (simp add: calculate_skill_match_def skill_match_spec_def Let_def fold_skill_step w)
qed




lemma lower_samples: "lower ''Python'' = ''python''" "lower ''PYTHON'' = ''python''" "lower ''python'' = ''python''"
   "lower ''sql'' = ''sql''" "lower ''SQL'' = ''sql''"
  by code_simp+





section \<open>Job identities and skill gaps\<close>

subsection \<open>Malformed and unknown job identities\<close>

lemma hex24_samples:
  "hex24 ''not-an-id'' = None"
  "hex24 ''ffffffffffffffffffffffff'' = Some ''ffffffffffffffffffffffff''"
  "hex24 ''65f0a1b2c3d4e5f6012345aa'' = Some ''65f0a1b2c3d4e5f6012345aa''"
  by code_simp+

lemma sample_texts:
  "extract_candidate_text sample_candidate = ''Backend developer Python (8 stars) Engineer Built services''"
  "extract_job_text sample_job = ''Data engineer Acme Pipelines python sql Full-time Tunis''"
  by code_simp+

lemma invalid_id_gives_empty:
  "object_id en s = None \<Longrightarrow> find_matching_candidates_for_job en s top_n w = (Inr [], w)"
  by (simp add: find_matching_candidates_for_job_def ObjectId_def)

lemma unknown_id_gives_empty:
  "object_id en s = Some i \<Longrightarrow> find_one en (\<lambda>d. job_id d = Some i) (jobs w) = Inr None
     \<Longrightarrow> find_matching_candidates_for_job en s top_n w = (Inr [], w)"
  by (simp add: find_matching_candidates_for_job_def ObjectId_def)

lemma invalid_id_gap:
  "find_ok en \<Longrightarrow> object_id en s = None
     \<Longrightarrow> analyze_skill_gaps en e s w = Inr (GapError ''Invalid job ID'')"
  by (simp add: analyze_skill_gaps_def ObjectId_def find_one_def)

lemma unknown_id_gap:
  "find_ok en \<Longrightarrow> object_id en s = Some i \<Longrightarrow> find (\<lambda>d. job_id d = Some i) (jobs w) = None
     \<Longrightarrow> analyze_skill_gaps en e s w = Inr (GapError ''Candidate or job not found'')"
  by (simp add: analyze_skill_gaps_def ObjectId_def find_one_def split: option.splits)

text \<open>
  Claim C1. A job identity the codec rejects should give an outcome of its own, distinct from
  that of a well-formed identity that matches no record. \<^verbatim>\<open>analyze_skill_gaps\<close> keeps the two
  apart; \<^verbatim>\<open>find_matching_candidates_for_job\<close> answers both with the empty list and an
  unchanged store.
\<close>

theorem invalid_job_id_conflated:
  "object_id sample_env ''not-an-id'' = None
   \<and> object_id sample_env ''ffffffffffffffffffffffff'' = Some ''ffffffffffffffffffffffff''
   \<and> find (\<lambda>d. job_id d = Some ''ffffffffffffffffffffffff'') (jobs sample_world) = None
   \<and> find_matching_candidates_for_job sample_env ''not-an-id'' 20 sample_world = (Inr [], sample_world)
   \<and> find_matching_candidates_for_job sample_env ''ffffffffffffffffffffffff'' 20 sample_world
        = (Inr [], sample_world)
   \<and> analyze_skill_gaps sample_env ''ada@example.org'' ''not-an-id'' sample_world
        = Inr (GapError ''Invalid job ID'')
   \<and> analyze_skill_gaps sample_env ''ada@example.org'' ''ffffffffffffffffffffffff'' sample_world
        = Inr (GapError ''Candidate or job not found'')"
proof -
  have a: "object_id sample_env ''not-an-id'' = None"
    by (simp add: sample_env_def hex24_samples)
  have b: "object_id sample_env ''ffffffffffffffffffffffff'' = Some ''ffffffffffffffffffffffff''"
    by (simp add: sample_env_def hex24_samples)
  have c: "find (\<lambda>d. job_id d = Some ''ffffffffffffffffffffffff'') (jobs sample_world) = None"
    by (simp add: sample_world_def sample_job_def)
  have ok: "find_ok sample_env"
    by (simp add: sample_env_def)
  have d: "find_one sample_env (\<lambda>d. job_id d = Some ''ffffffffffffffffffffffff'') (jobs sample_world) = Inr None"
    by (simp add: find_one_def ok c)
  show ?thesis
    by (intro conjI a b c invalid_id_gives_empty [OF a] unknown_id_gives_empty [OF b d]
          invalid_id_gap [OF ok a] unknown_id_gap [OF ok b c])
qed

subsection \<open>Skill gaps\<close>







section \<open>Properties of the composite score\<close>

subsection \<open>Rounding and the final score\<close>






subsection \<open>Encoding\<close>

lemma encode_text_Some:
  "t \<noteq> [] \<Longrightarrow> encode en t = Some v \<Longrightarrow> encode_text en t w = (Inr (Some v), w\<lparr>calls := calls w + 1\<rparr>)"
  by (simp add: encode_text_def)

lemma encode_text_None:
  "t \<noteq> [] \<Longrightarrow> encode en t = None \<Longrightarrow> encode_text en t w = (Inl ProviderError, w\<lparr>calls := calls w + 1\<rparr>)"
  by (simp add: encode_text_def)


lemma find_in_set: "find P xs = Some d \<Longrightarrow> d \<in> set xs \<and> P d"
  by (induction xs) (auto split: if_splits)

subsection \<open>Embedding and storing\<close>

lemma embed_and_store_candidate_ok:
  assumes "extract_candidate_text c \<noteq> []" and "encode en (extract_candidate_text c) = Some v"
    and "cand_id c = Some i" and "update_ok en"
  shows "embed_and_store_candidate en c w =
     (Inr (Some v),
      w\<lparr>candidates := set_first (\<lambda>d. cand_id d = Some i) (\<lambda>d. d\<lparr>cand_embedding := Some v\<rparr>) (candidates w),
        calls := calls w + 1\<rparr>)"
  using assms by (simp add: embed_and_store_candidate_def encode_text_Some update_one_def)

lemma embed_and_store_candidate_store_fails:
  assumes "extract_candidate_text c \<noteq> []" and "encode en (extract_candidate_text c) = Some v"
    and "cand_id c = Some i" and "\<not> update_ok en"
  shows "embed_and_store_candidate en c w = (Inl StoreError, w\<lparr>calls := calls w + 1\<rparr>)"
  using assms by (simp add: embed_and_store_candidate_def encode_text_Some update_one_def)


lemma embed_and_store_job_ok:
  assumes "extract_job_text j \<noteq> []" and "encode en (extract_job_text j) = Some v"
    and "job_id j = Some i" and "update_ok en"
  shows "embed_and_store_job en j w =
     (Inr (Some v),
      w\<lparr>jobs := set_first (\<lambda>d. job_id d = Some i) (\<lambda>d. d\<lparr>job_embedding := Some v\<rparr>) (jobs w),
        calls := calls w + 1\<rparr>)"
  using assms by (simp add: embed_and_store_job_def encode_text_Some update_one_def)


lemma embed_and_store_job_provider_fails:
  assumes "extract_job_text j \<noteq> []" and "encode en (extract_job_text j) = None"
  shows "embed_and_store_job en j w = (Inl ProviderError, w\<lparr>calls := calls w + 1\<rparr>)"
  using assms by (simp add: embed_and_store_job_def encode_text_None)

subsection \<open>Resolving an embedding\<close>

text \<open>The stored embedding is used as it is, and nothing else happens.\<close>

lemma resolve_candidate_hit:
  assumes "cand_id c = Some i" and "find_ok en"
    and "find (\<lambda>d. cand_id d = Some i) (candidates w) = Some d" and "truthy (cand_embedding d)"
  shows "resolve_candidate_embedding en c t w = (Inr (cand_embedding d), w)"
  using assms
  by (simp add: resolve_candidate_embedding_def try_candidate_embedding_def find_one_def)

lemma resolve_job_hit:
  assumes "job_id j = Some i" and "find_ok en"
    and "find (\<lambda>d. job_id d = Some i) (jobs w) = Some d" and "truthy (job_embedding d)"
  shows "resolve_job_embedding en j t w = (Inr (job_embedding d), w)"
  using assms
  by (simp add: resolve_job_embedding_def try_job_embedding_def find_one_def)

text \<open>No usable stored embedding, and the store works: the vector is computed and stored.\<close>

lemma resolve_candidate_miss:
  assumes "extract_candidate_text c \<noteq> []" and "encode en (extract_candidate_text c) = Some v"
    and "cand_id c = Some i" and "find_ok en" and "update_ok en"
    and "\<forall>d. find (\<lambda>d. cand_id d = Some i) (candidates w) = Some d \<longrightarrow> \<not> truthy (cand_embedding d)"
  shows "resolve_candidate_embedding en c (extract_candidate_text c) w =
     (Inr (Some v),
      w\<lparr>candidates := set_first (\<lambda>d. cand_id d = Some i) (\<lambda>d. d\<lparr>cand_embedding := Some v\<rparr>) (candidates w),
        calls := calls w + 1\<rparr>)"
  using assms
  by (simp add: resolve_candidate_embedding_def try_candidate_embedding_def find_one_def
        embed_and_store_candidate_ok split: option.splits)

lemma resolve_job_miss:
  assumes "extract_job_text j \<noteq> []" and "encode en (extract_job_text j) = Some v"
    and "job_id j = Some i" and "find_ok en" and "update_ok en"
    and "\<forall>d. find (\<lambda>d. job_id d = Some i) (jobs w) = Some d \<longrightarrow> \<not> truthy (job_embedding d)"
  shows "resolve_job_embedding en j (extract_job_text j) w =
     (Inr (Some v),
      w\<lparr>jobs := set_first (\<lambda>d. job_id d = Some i) (\<lambda>d. d\<lparr>job_embedding := Some v\<rparr>) (jobs w),
        calls := calls w + 1\<rparr>)"
  using assms
  by (simp add: resolve_job_embedding_def try_job_embedding_def find_one_def
        embed_and_store_job_ok split: option.splits)

text \<open>The read fails, or the document has no identity: the text is encoded, nothing is stored.\<close>

lemma resolve_candidate_transient:
  assumes "extract_candidate_text c \<noteq> []" and "encode en (extract_candidate_text c) = Some v"
    and "cand_id c = None \<or> \<not> find_ok en"
  shows "resolve_candidate_embedding en c (extract_candidate_text c) w
           = (Inr (Some v), w\<lparr>calls := calls w + 1\<rparr>)"
  using assms
  by (auto simp add: resolve_candidate_embedding_def try_candidate_embedding_def find_one_def
        encode_text_Some split: option.splits)


text \<open>The write fails: the model is called a second time by the handler, nothing is stored.\<close>

lemma resolve_candidate_write_fails:
  assumes "extract_candidate_text c \<noteq> []" and "encode en (extract_candidate_text c) = Some v"
    and "cand_id c = Some i" and "find_ok en" and "\<not> update_ok en"
    and "\<forall>d. find (\<lambda>d. cand_id d = Some i) (candidates w) = Some d \<longrightarrow> \<not> truthy (cand_embedding d)"
  shows "resolve_candidate_embedding en c (extract_candidate_text c) w
           = (Inr (Some v), w\<lparr>calls := calls w + 2\<rparr>)"
  using assms
  by (simp add: resolve_candidate_embedding_def try_candidate_embedding_def find_one_def
        embed_and_store_candidate_store_fails encode_text_Some split: option.splits)



lemma resolve_candidate_total:
  assumes t: "extract_candidate_text c \<noteq> []" and v: "encode en (extract_candidate_text c) = Some v"
  shows "\<exists>a w'. resolve_candidate_embedding en c (extract_candidate_text c) w = (Inr (Some a), w')
           \<and> (a = v \<or> (a \<noteq> [] \<and> (\<exists>d\<in>set (candidates w). cand_embedding d = Some a)))
           \<and> jobs w' = jobs w
           \<and> (\<not> find_ok en \<or> \<not> update_ok en \<longrightarrow> candidates w' = candidates w)
           \<and> (\<not> find_ok en \<longrightarrow> a = v \<and> w' = w\<lparr>calls := calls w + 1\<rparr>)"
proof (cases "cand_id c = None \<or> \<not> find_ok en")
  case True
  show ?thesis
    using resolve_candidate_transient [OF t v True, of w] by simp
next
  case False
  then obtain i where i: "cand_id c = Some i" and f: "find_ok en"
    by auto
  show ?thesis
  proof (cases "\<exists>d. find (\<lambda>d. cand_id d = Some i) (candidates w) = Some d \<and> truthy (cand_embedding d)")
    case True
    then obtain d where d: "find (\<lambda>d. cand_id d = Some i) (candidates w) = Some d"
      and tr: "truthy (cand_embedding d)"
      by auto
    from tr obtain a where a: "cand_embedding d = Some a" "a \<noteq> []"
      by (auto simp add: truthy_def split: option.splits)
    have "d \<in> set (candidates w)"
      using find_in_set [OF d] by simp
    then show ?thesis
      using resolve_candidate_hit [OF i f d tr, of "extract_candidate_text c"] a f by auto
  next
    case False
    then have miss: "\<forall>d. find (\<lambda>d. cand_id d = Some i) (candidates w) = Some d \<longrightarrow> \<not> truthy (cand_embedding d)"
      by auto
    show ?thesis
    proof (cases "update_ok en")
      case True
      show ?thesis
        using resolve_candidate_miss [OF t v i f True miss] f True by simp
    next
      case False
      show ?thesis
        using resolve_candidate_write_fails [OF t v i f False miss] f by simp
    qed
  qed
qed


lemma calculate_match_score_unfold:
  assumes "extract_candidate_text c \<noteq> []" and "extract_job_text j \<noteq> []"
    and "resolve_candidate_embedding en c (extract_candidate_text c) w = (Inr a, w1)"
    and "resolve_job_embedding en j (extract_job_text j) w1 = (Inr b, w2)"
    and "cosine_similarity a b = Inr sem"
  shows "calculate_match_score en c j w =
           (Inr (final_score sem (calculate_skill_match c j) (calculate_experience_boost c)), w2)"
  using assms by (simp add: calculate_match_score_def)


subsection \<open>The sample pair\<close>

lemma norm2_34: "norm2 [3, 4] = 5" "norm2 [4, 3] = 5"
proof -
  have "sqrt 25 = sqrt (5\<^sup>2)"
    by simp
  also have "\<dots> = 5"
    by (simp del: power2_eq_square)
  finally have "sqrt 25 = 5" .
  then show "norm2 [3, 4] = 5" "norm2 [4, 3] = 5"
    by (simp_all add: norm2_def)
qed

lemma cosine_sample: "cosine_similarity (Some [3, 4]) (Some [4, 3]) = Inr (24 / 25)"
  by (simp add: cosine_similarity_def norm2_34 dot_def)

lemma sample_text_parity:
  "even (length (extract_candidate_text sample_candidate))"
  "odd (length (extract_job_text sample_job))"
  "extract_candidate_text sample_candidate \<noteq> []"
  "extract_job_text sample_job \<noteq> []"
  by (simp_all add: sample_texts)

lemma sample_encode:
  "encode sample_env (extract_candidate_text sample_candidate) = Some [3, 4]"
  "encode sample_env (extract_job_text sample_job) = Some [4, 3]"
  "encode (sample_env\<lparr>find_ok := False\<rparr>) (extract_candidate_text sample_candidate) = Some [3, 4]"
  "encode (sample_env\<lparr>find_ok := False\<rparr>) (extract_job_text sample_job) = Some [4, 3]"
  by (simp_all add: sample_env_def sample_text_parity)


lemma sample_skill_match: "calculate_skill_match sample_candidate sample_job = 0.4"
proof -
  have py: "last_wins (skills sample_candidate) ''python'' = Some 80"
    by (simp add: last_wins_def sample_candidate_def lower_samples)
  have sql: "last_wins (skills sample_candidate) ''sql'' = None"
    by (simp add: last_wins_def sample_candidate_def lower_samples)
  have rq: "required_skills sample_job = [''python'', ''sql'']"
    by (simp add: sample_job_def)
  have sk: "skills sample_candidate \<noteq> []"
    by (simp add: sample_candidate_def)
  show ?thesis
    by (simp add: calculate_skill_match_refines skill_match_spec_def skill_weight_def
          py sql rq sk lower_samples)
qed

lemma sample_boost: "calculate_experience_boost sample_candidate = 0.05"
  by (simp add: boost_eq sample_candidate_def)

lemma sample_final: "final_score (24 / 25) 0.4 0.05 = 0.701"
  by (simp add: final_score_def py_round_def round_half_even_def Let_def)




lemma sample_final_score:
  "final_score (24 / 25) (calculate_skill_match sample_candidate sample_job)
     (calculate_experience_boost sample_candidate) = 0.701"
  unfolding sample_skill_match sample_boost by (rule sample_final)



lemma sample_score:
  "calculate_match_score sample_env sample_candidate sample_job sample_world
     = (Inr 0.701,
        \<lparr>candidates = [sample_candidate\<lparr>cand_embedding := Some [3, 4]\<rparr>],
         jobs = [sample_job\<lparr>job_embedding := Some [4, 3]\<rparr>], calls = 2\<rparr>)"
proof -
  let ?w1 = "\<lparr>candidates = [sample_candidate\<lparr>cand_embedding := Some [3, 4]\<rparr>],
         jobs = [sample_job], calls = 1\<rparr>"
  let ?w2 = "\<lparr>candidates = [sample_candidate\<lparr>cand_embedding := Some [3, 4]\<rparr>],
         jobs = [sample_job\<lparr>job_embedding := Some [4, 3]\<rparr>], calls = 2\<rparr>"
  have ok: "find_ok sample_env" "update_ok sample_env"
    by (simp_all add: sample_env_def)
  have ci: "cand_id sample_candidate = Some ''65f0a1b2c3d4e5f601234567''"
    by (simp add: sample_candidate_def)
  have ji: "job_id sample_job = Some ''65f0a1b2c3d4e5f6012345aa''"
    by (simp add: sample_job_def)
  have rc: "resolve_candidate_embedding sample_env sample_candidate (extract_candidate_text sample_candidate)
      sample_world = (Inr (Some [3, 4]), ?w1)"
    by (subst resolve_candidate_miss [OF sample_text_parity(3) sample_encode(1) ci ok])
      (simp_all add: sample_world_def ci truthy_def, simp add: sample_candidate_def)
  have rj: "resolve_job_embedding sample_env sample_job (extract_job_text sample_job) ?w1
      = (Inr (Some [4, 3]), ?w2)"
    by (subst resolve_job_miss [OF sample_text_parity(4) sample_encode(2) ji ok])
      (simp_all add: ji truthy_def, simp add: sample_job_def)
  show ?thesis
    unfolding calculate_match_score_unfold [OF sample_text_parity(3,4) rc rj cosine_sample]
      sample_final_score ..
qed


subsection \<open>What the score request returns\<close>







subsection \<open>The stored embedding as a cache\<close>

lemma find_set_first:
  assumes "\<And>x. P (f x) = P x"
  shows "find P (set_first P f xs) = map_option f (find P xs)"
  using assms by (induction xs) simp_all

lemma calculate_match_score_via:
  assumes "extract_candidate_text c \<noteq> []" and "extract_job_text j \<noteq> []"
    and "resolve_candidate_embedding en c (extract_candidate_text c) w = (Inr a, w1)"
    and "resolve_job_embedding en j (extract_job_text j) w1 = (Inr b, w2)"
  shows "calculate_match_score en c j w =
           (case cosine_similarity a b of
              Inl e \<Rightarrow> (Inl e, w2)
            | Inr sem \<Rightarrow>
                (Inr (final_score sem (calculate_skill_match c j) (calculate_experience_boost c)), w2))"
  using assms by (simp add: calculate_match_score_def split: sum.splits)

lemma calculate_match_score_hit:
  assumes "cand_id c = Some ic" and "job_id j = Some ij" and "find_ok en"
    and "find (\<lambda>d. cand_id d = Some ic) (candidates w) = Some dc" and "truthy (cand_embedding dc)"
    and "find (\<lambda>d. job_id d = Some ij) (jobs w) = Some dj" and "truthy (job_embedding dj)"
  shows "calculate_match_score en c j w =
           (if extract_candidate_text c = [] \<or> extract_job_text j = [] then (Inr 0, w)
            else (case cosine_similarity (cand_embedding dc) (job_embedding dj) of
                    Inl e \<Rightarrow> (Inl e, w)
                  | Inr sem \<Rightarrow>
                      (Inr (final_score sem (calculate_skill_match c j) (calculate_experience_boost c)), w)))"
proof (cases "extract_candidate_text c = [] \<or> extract_job_text j = []")
  case True
  then show ?thesis
    by (auto simp add: calculate_match_score_def)
next
  case False
  then have t: "extract_candidate_text c \<noteq> []" "extract_job_text j \<noteq> []"
    by auto
  show ?thesis
    using False
      calculate_match_score_via [OF t resolve_candidate_hit [OF assms(1,3,4,5)]
        resolve_job_hit [OF assms(2,3,6,7)]]
    by simp
qed

lemma resolve_candidate_caches:
  assumes t: "extract_candidate_text c \<noteq> []" and v: "encode en (extract_candidate_text c) = Some v"
    and ne: "v \<noteq> []" and i: "cand_id c = Some i" and f: "find_ok en" and u: "update_ok en"
    and d: "find (\<lambda>d. cand_id d = Some i) (candidates w) = Some d"
  shows "\<exists>a w1 d1. resolve_candidate_embedding en c (extract_candidate_text c) w = (Inr (Some a), w1)
           \<and> find (\<lambda>d. cand_id d = Some i) (candidates w1) = Some d1
           \<and> cand_embedding d1 = Some a \<and> a \<noteq> [] \<and> jobs w1 = jobs w
           \<and> (if truthy (cand_embedding d) then w1 = w
               else a = v \<and> calls w1 = calls w + 1
                    \<and> candidates w1 = set_first (\<lambda>d. cand_id d = Some i)
                                        (\<lambda>d. d\<lparr>cand_embedding := Some v\<rparr>) (candidates w))"
proof (cases "truthy (cand_embedding d)")
  case True
  then obtain a where a: "cand_embedding d = Some a" "a \<noteq> []"
    by (auto simp add: truthy_def split: option.splits)
  show ?thesis
    using resolve_candidate_hit [OF i f d True, of "extract_candidate_text c"] a d True by simp
next
  case False
  then have miss: "\<forall>d. find (\<lambda>d. cand_id d = Some i) (candidates w) = Some d \<longrightarrow> \<not> truthy (cand_embedding d)"
    using d by simp
  have "find (\<lambda>d. cand_id d = Some i)
          (set_first (\<lambda>d. cand_id d = Some i) (\<lambda>d. d\<lparr>cand_embedding := Some v\<rparr>) (candidates w))
        = Some (d\<lparr>cand_embedding := Some v\<rparr>)"
    by (simp add: find_set_first d)
  then show ?thesis
    using resolve_candidate_miss [OF t v i f u miss] False ne by simp
qed

lemma resolve_job_caches:
  assumes t: "extract_job_text j \<noteq> []" and v: "encode en (extract_job_text j) = Some v"
    and ne: "v \<noteq> []" and i: "job_id j = Some i" and f: "find_ok en" and u: "update_ok en"
    and d: "find (\<lambda>d. job_id d = Some i) (jobs w) = Some d"
  shows "\<exists>a w1 d1. resolve_job_embedding en j (extract_job_text j) w = (Inr (Some a), w1)
           \<and> find (\<lambda>d. job_id d = Some i) (jobs w1) = Some d1
           \<and> job_embedding d1 = Some a \<and> a \<noteq> [] \<and> candidates w1 = candidates w
           \<and> (if truthy (job_embedding d) then w1 = w
               else a = v \<and> calls w1 = calls w + 1
                    \<and> jobs w1 = set_first (\<lambda>d. job_id d = Some i)
                                  (\<lambda>d. d\<lparr>job_embedding := Some v\<rparr>) (jobs w))"
proof (cases "truthy (job_embedding d)")
  case True
  then obtain a where a: "job_embedding d = Some a" "a \<noteq> []"
    by (auto simp add: truthy_def split: option.splits)
  show ?thesis
    using resolve_job_hit [OF i f d True, of "extract_job_text j"] a d True by simp
next
  case False
  then have miss: "\<forall>d. find (\<lambda>d. job_id d = Some i) (jobs w) = Some d \<longrightarrow> \<not> truthy (job_embedding d)"
    using d by simp
  have "find (\<lambda>d. job_id d = Some i)
          (set_first (\<lambda>d. job_id d = Some i) (\<lambda>d. d\<lparr>job_embedding := Some v\<rparr>) (jobs w))
        = Some (d\<lparr>job_embedding := Some v\<rparr>)"
    by (simp add: find_set_first d)
  then show ?thesis
    using resolve_job_miss [OF t v i f u miss] False ne by simp
qed

lemma score_round_trip:
  assumes tc: "extract_candidate_text c \<noteq> []" and tj: "extract_job_text j \<noteq> []"
    and vc: "encode en (extract_candidate_text c) = Some v1" and n1: "v1 \<noteq> []"
    and vj: "encode en (extract_job_text j) = Some v2" and n2: "v2 \<noteq> []"
    and ic: "cand_id c = Some ic" and ij: "job_id j = Some ij"
    and f: "find_ok en" and u: "update_ok en"
    and dc: "find (\<lambda>d. cand_id d = Some ic) (candidates w) = Some dc"
    and dj: "find (\<lambda>d. job_id d = Some ij) (jobs w) = Some dj"
  shows "\<exists>x w1. calculate_match_score en c j w = (x, w1)
           \<and> calculate_match_score en c j w1 = (x, w1)
           \<and> (\<not> truthy (cand_embedding dc) \<and> \<not> truthy (job_embedding dj)
                \<longrightarrow> calls w1 = calls w + 2
                    \<and> candidates w1 = set_first (\<lambda>d. cand_id d = Some ic)
                                        (\<lambda>d. d\<lparr>cand_embedding := Some v1\<rparr>) (candidates w)
                    \<and> jobs w1 = set_first (\<lambda>d. job_id d = Some ij)
                                  (\<lambda>d. d\<lparr>job_embedding := Some v2\<rparr>) (jobs w))"
proof -
  from resolve_candidate_caches [OF tc vc n1 ic f u dc]
  obtain a w1 d1 where rc: "resolve_candidate_embedding en c (extract_candidate_text c) w = (Inr (Some a), w1)"
    and d1: "find (\<lambda>d. cand_id d = Some ic) (candidates w1) = Some d1"
    and a: "cand_embedding d1 = Some a" "a \<noteq> []"
    and j1: "jobs w1 = jobs w"
    and e1: "if truthy (cand_embedding dc) then w1 = w
             else a = v1 \<and> calls w1 = calls w + 1
                  \<and> candidates w1 = set_first (\<lambda>d. cand_id d = Some ic)
                                      (\<lambda>d. d\<lparr>cand_embedding := Some v1\<rparr>) (candidates w)"
    by blast
  have dj1: "find (\<lambda>d. job_id d = Some ij) (jobs w1) = Some dj"
    using dj j1 by simp
  from resolve_job_caches [OF tj vj n2 ij f u dj1]
  obtain b w2 d2 where rj: "resolve_job_embedding en j (extract_job_text j) w1 = (Inr (Some b), w2)"
    and d2: "find (\<lambda>d. job_id d = Some ij) (jobs w2) = Some d2"
    and b: "job_embedding d2 = Some b" "b \<noteq> []"
    and c2: "candidates w2 = candidates w1"
    and e2: "if truthy (job_embedding dj) then w2 = w1
             else b = v2 \<and> calls w2 = calls w1 + 1
                  \<and> jobs w2 = set_first (\<lambda>d. job_id d = Some ij)
                                (\<lambda>d. d\<lparr>job_embedding := Some v2\<rparr>) (jobs w1)"
    by blast
  have first: "calculate_match_score en c j w =
           (case cosine_similarity (Some a) (Some b) of
              Inl e \<Rightarrow> (Inl e, w2)
            | Inr sem \<Rightarrow>
                (Inr (final_score sem (calculate_skill_match c j) (calculate_experience_boost c)), w2))"
    by (rule calculate_match_score_via [OF tc tj rc rj])
  have d1': "find (\<lambda>d. cand_id d = Some ic) (candidates w2) = Some d1"
    using d1 c2 by simp
  have t1: "truthy (cand_embedding d1)" and t2: "truthy (job_embedding d2)"
    using a b by (simp_all add: truthy_def)
  have second: "calculate_match_score en c j w2 =
           (case cosine_similarity (Some a) (Some b) of
              Inl e \<Rightarrow> (Inl e, w2)
            | Inr sem \<Rightarrow>
                (Inr (final_score sem (calculate_skill_match c j) (calculate_experience_boost c)), w2))"
    using calculate_match_score_hit [OF ic ij f d1' t1 d2 t2] tc tj a b by simp
  have cold: "calls w2 = calls w + 2
        \<and> candidates w2 = set_first (\<lambda>d. cand_id d = Some ic)
                            (\<lambda>d. d\<lparr>cand_embedding := Some v1\<rparr>) (candidates w)
        \<and> jobs w2 = set_first (\<lambda>d. job_id d = Some ij)
                      (\<lambda>d. d\<lparr>job_embedding := Some v2\<rparr>) (jobs w)"
    if "\<not> truthy (cand_embedding dc) \<and> \<not> truthy (job_embedding dj)"
    using that e1 e2 c2 j1 by simp
  show ?thesis
  proof (cases "cosine_similarity (Some a) (Some b)")
    case (Inl e)
    then show ?thesis
      using first second cold by auto
  next
    case (Inr sem)
    then show ?thesis
      using first second cold by auto
  qed
qed


text \<open>
  Claim C6. When the stored record of the candidate and that of the job carry an embedding,
  a scoring request takes the two stored vectors as they are: the embedding model is not
  called and nothing is written, the world after the request is the world before. Round
  trip: where the store works and the model returns vectors for the two texts, a first
  request computes and stores what is missing (two calls of the model when both are
  missing), and a second request for the same pair returns the same result and leaves the
  world, with its count of model calls, unchanged.
\<close>

theorem stored_embedding_reused:
  "(cand_id c = Some ic \<and> job_id j = Some ij \<and> find_ok en
      \<and> find (\<lambda>d. cand_id d = Some ic) (candidates w) = Some dc \<and> truthy (cand_embedding dc)
      \<and> find (\<lambda>d. job_id d = Some ij) (jobs w) = Some dj \<and> truthy (job_embedding dj)
     \<longrightarrow> resolve_candidate_embedding en c tc w = (Inr (cand_embedding dc), w)
         \<and> resolve_job_embedding en j tj w = (Inr (job_embedding dj), w)
         \<and> snd (calculate_match_score en c j w) = w)
   \<and> (extract_candidate_text c \<noteq> [] \<and> extract_job_text j \<noteq> []
      \<and> encode en (extract_candidate_text c) = Some v1 \<and> v1 \<noteq> []
      \<and> encode en (extract_job_text j) = Some v2 \<and> v2 \<noteq> []
      \<and> cand_id c = Some ic \<and> job_id j = Some ij \<and> find_ok en \<and> update_ok en
      \<and> find (\<lambda>d. cand_id d = Some ic) (candidates w) = Some dc
      \<and> find (\<lambda>d. job_id d = Some ij) (jobs w) = Some dj
     \<longrightarrow> (\<exists>x w1. calculate_match_score en c j w = (x, w1)
            \<and> calculate_match_score en c j w1 = (x, w1)
            \<and> (\<not> truthy (cand_embedding dc) \<and> \<not> truthy (job_embedding dj)
                 \<longrightarrow> calls w1 = calls w + 2
                     \<and> candidates w1 = set_first (\<lambda>d. cand_id d = Some ic)
                                         (\<lambda>d. d\<lparr>cand_embedding := Some v1\<rparr>) (candidates w)
                     \<and> jobs w1 = set_first (\<lambda>d. job_id d = Some ij)
                                   (\<lambda>d. d\<lparr>job_embedding := Some v2\<rparr>) (jobs w))))"
proof -
  have hit: "resolve_candidate_embedding en c tc w = (Inr (cand_embedding dc), w)
         \<and> resolve_job_embedding en j tj w = (Inr (job_embedding dj), w)
         \<and> snd (calculate_match_score en c j w) = w"
    if "cand_id c = Some ic" "job_id j = Some ij" "find_ok en"
      "find (\<lambda>d. cand_id d = Some ic) (candidates w) = Some dc" "truthy (cand_embedding dc)"
      "find (\<lambda>d. job_id d = Some ij) (jobs w) = Some dj" "truthy (job_embedding dj)"
    using resolve_candidate_hit [OF that(1,3,4,5)] resolve_job_hit [OF that(2,3,6,7)]
      calculate_match_score_hit [OF that]
    by (simp split: sum.splits)
  show ?thesis
    using hit score_round_trip [of c j en v1 v2 ic ij w dc dj] by blast
qed

theorem stored_embedding_reused_witness:
  "extract_candidate_text sample_candidate \<noteq> [] \<and> extract_job_text sample_job \<noteq> []
   \<and> encode sample_env (extract_candidate_text sample_candidate) = Some [3, 4] \<and> [3, 4 :: real] \<noteq> []
   \<and> encode sample_env (extract_job_text sample_job) = Some [4, 3] \<and> [4, 3 :: real] \<noteq> []
   \<and> cand_id sample_candidate = Some ''65f0a1b2c3d4e5f601234567''
   \<and> job_id sample_job = Some ''65f0a1b2c3d4e5f6012345aa''
   \<and> find_ok sample_env \<and> update_ok sample_env
   \<and> find (\<lambda>d. cand_id d = Some ''65f0a1b2c3d4e5f601234567'') (candidates sample_world)
       = Some sample_candidate
   \<and> find (\<lambda>d. job_id d = Some ''65f0a1b2c3d4e5f6012345aa'') (jobs sample_world) = Some sample_job
   \<and> \<not> truthy (cand_embedding sample_candidate) \<and> \<not> truthy (job_embedding sample_job)
   \<and> calculate_match_score sample_env sample_candidate sample_job sample_world
       = (Inr 0.701,
          \<lparr>candidates = [sample_candidate\<lparr>cand_embedding := Some [3, 4]\<rparr>],
           jobs = [sample_job\<lparr>job_embedding := Some [4, 3]\<rparr>], calls = 2\<rparr>)
   \<and> calculate_match_score sample_env sample_candidate sample_job
         \<lparr>candidates = [sample_candidate\<lparr>cand_embedding := Some [3, 4]\<rparr>],
          jobs = [sample_job\<lparr>job_embedding := Some [4, 3]\<rparr>], calls = 2\<rparr>
       = (Inr 0.701,
          \<lparr>candidates = [sample_candidate\<lparr>cand_embedding := Some [3, 4]\<rparr>],
           jobs = [sample_job\<lparr>job_embedding := Some [4, 3]\<rparr>], calls = 2\<rparr>)
   \<and> find (\<lambda>d. cand_id d = Some ''65f0a1b2c3d4e5f601234567'')
         (candidates \<lparr>candidates = [sample_candidate\<lparr>cand_embedding := Some [3, 4]\<rparr>],
                      jobs = [sample_job\<lparr>job_embedding := Some [4, 3]\<rparr>], calls = 2\<rparr>)
       = Some (sample_candidate\<lparr>cand_embedding := Some [3, 4]\<rparr>)
   \<and> truthy (cand_embedding (sample_candidate\<lparr>cand_embedding := Some [3, 4]\<rparr>))
   \<and> find (\<lambda>d. job_id d = Some ''65f0a1b2c3d4e5f6012345aa'')
         (jobs \<lparr>candidates = [sample_candidate\<lparr>cand_embedding := Some [3, 4]\<rparr>],
                jobs = [sample_job\<lparr>job_embedding := Some [4, 3]\<rparr>], calls = 2\<rparr>)
       = Some (sample_job\<lparr>job_embedding := Some [4, 3]\<rparr>)
   \<and> truthy (job_embedding (sample_job\<lparr>job_embedding := Some [4, 3]\<rparr>))
   \<and> resolve_candidate_embedding sample_env sample_candidate (extract_candidate_text sample_candidate)
         \<lparr>candidates = [sample_candidate\<lparr>cand_embedding := Some [3, 4]\<rparr>],
          jobs = [sample_job\<lparr>job_embedding := Some [4, 3]\<rparr>], calls = 2\<rparr>
       = (Inr (Some [3, 4]),
          \<lparr>candidates = [sample_candidate\<lparr>cand_embedding := Some [3, 4]\<rparr>],
           jobs = [sample_job\<lparr>job_embedding := Some [4, 3]\<rparr>], calls = 2\<rparr>)
   \<and> resolve_job_embedding sample_env sample_job (extract_job_text sample_job)
         \<lparr>candidates = [sample_candidate\<lparr>cand_embedding := Some [3, 4]\<rparr>],
          jobs = [sample_job\<lparr>job_embedding := Some [4, 3]\<rparr>], calls = 2\<rparr>
       = (Inr (Some [4, 3]),
          \<lparr>candidates = [sample_candidate\<lparr>cand_embedding := Some [3, 4]\<rparr>],
           jobs = [sample_job\<lparr>job_embedding := Some [4, 3]\<rparr>], calls = 2\<rparr>)"
proof -
  let ?w2 = "\<lparr>candidates = [sample_candidate\<lparr>cand_embedding := Some [3, 4]\<rparr>],
           jobs = [sample_job\<lparr>job_embedding := Some [4, 3]\<rparr>], calls = 2\<rparr>"
  have ok: "find_ok sample_env" "update_ok sample_env"
    by (simp_all add: sample_env_def)
  have ci: "cand_id sample_candidate = Some ''65f0a1b2c3d4e5f601234567''"
    by (simp add: sample_candidate_def)
  have ji: "job_id sample_job = Some ''65f0a1b2c3d4e5f6012345aa''"
    by (simp add: sample_job_def)
  have fc: "find (\<lambda>d. cand_id d = Some ''65f0a1b2c3d4e5f601234567'') (candidates sample_world)
       = Some sample_candidate"
    by (simp add: sample_world_def ci)
  have fj: "find (\<lambda>d. job_id d = Some ''65f0a1b2c3d4e5f6012345aa'') (jobs sample_world) = Some sample_job"
    by (simp add: sample_world_def ji)
  have nt: "\<not> truthy (cand_embedding sample_candidate)" "\<not> truthy (job_embedding sample_job)"
    by (simp_all add: truthy_def sample_candidate_def sample_job_def)
  have ne: "[3, 4 :: real] \<noteq> []" "[4, 3 :: real] \<noteq> []"
    by simp_all
  from stored_embedding_reused
    [where c = sample_candidate and j = sample_job and en = sample_env and w = sample_world
       and ?v1.0 = "[3, 4]" and ?v2.0 = "[4, 3]" and dc = sample_candidate and dj = sample_job
       and ic = "''65f0a1b2c3d4e5f601234567''" and ij = "''65f0a1b2c3d4e5f6012345aa''",
      THEN conjunct2, rule_format]
    sample_text_parity(3,4) sample_encode(1,2) ne ci ji ok fc fj
  obtain x w1 where "calculate_match_score sample_env sample_candidate sample_job sample_world = (x, w1)"
    and again: "calculate_match_score sample_env sample_candidate sample_job w1 = (x, w1)"
    by blast
  then have "x = Inr 0.701" "w1 = ?w2"
    unfolding sample_score by simp_all
  with again have twice: "calculate_match_score sample_env sample_candidate sample_job ?w2 = (Inr 0.701, ?w2)"
    by simp
  have fc2: "find (\<lambda>d. cand_id d = Some ''65f0a1b2c3d4e5f601234567'') (candidates ?w2)
       = Some (sample_candidate\<lparr>cand_embedding := Some [3, 4]\<rparr>)"
    by (simp add: ci)
  have fj2: "find (\<lambda>d. job_id d = Some ''65f0a1b2c3d4e5f6012345aa'') (jobs ?w2)
       = Some (sample_job\<lparr>job_embedding := Some [4, 3]\<rparr>)"
    by (simp add: ji)
  have tr: "truthy (cand_embedding (sample_candidate\<lparr>cand_embedding := Some [3, 4]\<rparr>))"
    "truthy (job_embedding (sample_job\<lparr>job_embedding := Some [4, 3]\<rparr>))"
    by (simp_all add: truthy_def)
  note hit = stored_embedding_reused
    [where c = sample_candidate and j = sample_job and en = sample_env and w = ?w2
       and dc = "sample_candidate\<lparr>cand_embedding := Some [3, 4]\<rparr>"
       and dj = "sample_job\<lparr>job_embedding := Some [4, 3]\<rparr>"
       and tc = "extract_candidate_text sample_candidate" and tj = "extract_job_text sample_job"
       and ic = "''65f0a1b2c3d4e5f601234567''" and ij = "''65f0a1b2c3d4e5f6012345aa''",
      THEN conjunct1, rule_format,
      OF conjI [OF ci conjI [OF ji conjI [OF ok(1) conjI [OF fc2 conjI [OF tr(1) conjI [OF fj2 tr(2)]]]]]]]
  have rc: "resolve_candidate_embedding sample_env sample_candidate (extract_candidate_text sample_candidate) ?w2
       = (Inr (Some [3, 4]), ?w2)"
    using hit [THEN conjunct1] by simp
  have rj: "resolve_job_embedding sample_env sample_job (extract_job_text sample_job) ?w2
       = (Inr (Some [4, 3]), ?w2)"
    using hit [THEN conjunct2, THEN conjunct1] by simp
  show ?thesis
    by (intro conjI sample_text_parity(3,4) sample_encode(1,2) ne ci ji ok fc fj nt sample_score
          twice fc2 fj2 tr rc rj)
qed

section \<open>Ranking the jobs for a candidate\<close>

subsection \<open>Sorting and slicing\<close>








subsection \<open>The loop over the jobs\<close>




lemma find_matching_jobs_run:
  "find_matching_jobs_for_candidate en e top_n src w =
     (case find_one en (\<lambda>c. email c = e) (candidates w) of
        Inl err \<Rightarrow> (Inl err, w)
      | Inr None \<Rightarrow> (Inr [], w)
      | Inr (Some candidate) \<Rightarrow>
          (case reload_candidate en candidate w of
             (Inl err, w1) \<Rightarrow> (Inl err, w1)
           | (Inr candidate1, w1) \<Rightarrow>
               (case find_all en (source_query src) (jobs w1) of
                  Inl err \<Rightarrow> (Inl err, w1)
                | Inr js \<Rightarrow>
                    (case score_jobs en candidate1 js w1 of
                       (Inl err, w2) \<Rightarrow> (Inl err, w2)
                     | (Inr scored, w2) \<Rightarrow> (Inr (slice_to top_n (sort_by_score scored)), w2)))))"
  unfolding find_matching_jobs_for_candidate_def reload_candidate_def ..



subsection \<open>Collaborators that work\<close>

lemma set_set_first: "x \<in> set (set_first P f xs) \<Longrightarrow> x \<in> set xs \<or> (\<exists>y\<in>set xs. x = f y)"
  by (induction xs) (auto split: if_splits)









lemma find_exists: "x \<in> set xs \<Longrightarrow> P x \<Longrightarrow> \<exists>y. find P xs = Some y"
  by (induction xs) auto



subsection \<open>The sample search\<close>

lemma embedding_not_in_profile:
  "extract_candidate_text (c\<lparr>cand_embedding := e\<rparr>) = extract_candidate_text c"
  "calculate_skill_match (c\<lparr>cand_embedding := e\<rparr>) j = calculate_skill_match c j"
  "calculate_experience_boost (c\<lparr>cand_embedding := e\<rparr>) = calculate_experience_boost c"
  by (simp_all add: extract_candidate_text_def calculate_skill_match_def calculate_experience_boost_def)














subsection \<open>The ranking\<close>





section \<open>Stored embeddings that are empty\<close>

subsection \<open>What each step leaves alone\<close>

lemma encode_text_frame:
  "candidates (snd (encode_text en t w)) = candidates w"
  "jobs (snd (encode_text en t w)) = jobs w"
  "calls w \<le> calls (snd (encode_text en t w))"
  by (simp_all add: encode_text_def split: option.splits)

lemma embed_and_store_candidate_frame:
  "jobs (snd (embed_and_store_candidate en c w)) = jobs w"
  "calls w \<le> calls (snd (embed_and_store_candidate en c w))"
  by (simp_all add: embed_and_store_candidate_def encode_text_def update_one_def Let_def
        split: option.splits sum.splits prod.splits)

lemma embed_and_store_job_frame:
  "candidates (snd (embed_and_store_job en j w)) = candidates w"
  "calls w \<le> calls (snd (embed_and_store_job en j w))"
  by (simp_all add: embed_and_store_job_def encode_text_def update_one_def Let_def
        split: option.splits sum.splits prod.splits)

lemma try_candidate_frame:
  "jobs (snd (try_candidate_embedding en c t w)) = jobs w"
  "calls w \<le> calls (snd (try_candidate_embedding en c t w))"
  using embed_and_store_candidate_frame [where en = en and c = c and w = w]
    encode_text_frame [where en = en and t = t and w = w]
  by (auto simp add: try_candidate_embedding_def split: option.splits sum.splits)

lemma try_job_frame:
  "candidates (snd (try_job_embedding en j t w)) = candidates w"
  "calls w \<le> calls (snd (try_job_embedding en j t w))"
  using embed_and_store_job_frame [where en = en and j = j and w = w]
    encode_text_frame [where en = en and t = t and w = w]
  by (auto simp add: try_job_embedding_def split: option.splits sum.splits)

lemma resolve_candidate_frame:
  "jobs (snd (resolve_candidate_embedding en c t w)) = jobs w"
  "calls w \<le> calls (snd (resolve_candidate_embedding en c t w))"
proof -
  obtain x w1 where t: "try_candidate_embedding en c t w = (x, w1)"
    by (cases "try_candidate_embedding en c t w")
  have a: "jobs w1 = jobs w" "calls w \<le> calls w1"
    using try_candidate_frame [where en = en and c = c and t = t and w = w] t by simp_all
  have b: "jobs (snd (encode_text en t w1)) = jobs w1" "calls w1 \<le> calls (snd (encode_text en t w1))"
    by (rule encode_text_frame)+
  show "jobs (snd (resolve_candidate_embedding en c t w)) = jobs w"
    using t a b by (cases x) (simp_all add: resolve_candidate_embedding_def)
  show "calls w \<le> calls (snd (resolve_candidate_embedding en c t w))"
    using t a b by (cases x) (simp_all add: resolve_candidate_embedding_def)
qed

lemma resolve_job_frame:
  "candidates (snd (resolve_job_embedding en j t w)) = candidates w"
  "calls w \<le> calls (snd (resolve_job_embedding en j t w))"
proof -
  obtain x w1 where t: "try_job_embedding en j t w = (x, w1)"
    by (cases "try_job_embedding en j t w")
  have a: "candidates w1 = candidates w" "calls w \<le> calls w1"
    using try_job_frame [where en = en and j = j and t = t and w = w] t by simp_all
  have b: "candidates (snd (encode_text en t w1)) = candidates w1"
    "calls w1 \<le> calls (snd (encode_text en t w1))"
    by (rule encode_text_frame)+
  show "candidates (snd (resolve_job_embedding en j t w)) = candidates w"
    using t a b by (cases x) (simp_all add: resolve_job_embedding_def)
  show "calls w \<le> calls (snd (resolve_job_embedding en j t w))"
    using t a b by (cases x) (simp_all add: resolve_job_embedding_def)
qed

text \<open>
  A candidate whose stored record has an embedding: resolving it never writes the
  candidates, whether the read succeeds or not.
\<close>

lemma resolve_candidate_keeps:
  assumes "cand_id c = Some i" and "find (\<lambda>d. cand_id d = Some i) (candidates w) = Some r"
    and "truthy (cand_embedding r)"
  shows "candidates (snd (resolve_candidate_embedding en c t w)) = candidates w"
proof (cases "find_ok en")
  case True
  show ?thesis
    using resolve_candidate_hit [OF assms(1) True assms(2,3), of t] by simp
next
  case False
  then have "try_candidate_embedding en c t w = (Inl StoreError, w)"
    using assms(1) by (simp add: try_candidate_embedding_def find_one_def)
  then show ?thesis
    using encode_text_frame(1) [where en = en and t = t and w = w] by (simp add: resolve_candidate_embedding_def)
qed

lemma resolve_job_keeps:
  assumes "job_id j = Some i" and "find (\<lambda>d. job_id d = Some i) (jobs w) = Some r"
    and "truthy (job_embedding r)"
  shows "jobs (snd (resolve_job_embedding en j t w)) = jobs w"
proof (cases "find_ok en")
  case True
  show ?thesis
    using resolve_job_hit [OF assms(1) True assms(2,3), of t] by simp
next
  case False
  then have "try_job_embedding en j t w = (Inl StoreError, w)"
    using assms(1) by (simp add: try_job_embedding_def find_one_def)
  then show ?thesis
    using encode_text_frame(2) [where en = en and t = t and w = w] by (simp add: resolve_job_embedding_def)
qed

lemma calculate_match_score_steps:
  "\<exists>w1. (snd (calculate_match_score en c j w) = w
          \<or> snd (calculate_match_score en c j w) = w1
          \<or> snd (calculate_match_score en c j w)
               = snd (resolve_job_embedding en j (extract_job_text j) w1))
        \<and> w1 = snd (resolve_candidate_embedding en c (extract_candidate_text c) w)"
  by (auto simp add: calculate_match_score_def Let_def split: prod.splits sum.splits)

lemma calculate_match_score_calls: "calls w \<le> calls (snd (calculate_match_score en c j w))"
  using calculate_match_score_steps [of en c j w]
    resolve_candidate_frame(2) [where w = w and en = en and c = c and t = "extract_candidate_text c"]
    resolve_job_frame(2) [where w = "snd (resolve_candidate_embedding en c (extract_candidate_text c) w)"
      and en = en and j = j and t = "extract_job_text j"]
  by auto

lemma calculate_match_score_keeps_candidates:
  assumes "cand_id c = Some i" and "find (\<lambda>d. cand_id d = Some i) (candidates w) = Some r"
    and "truthy (cand_embedding r)"
  shows "candidates (snd (calculate_match_score en c j w)) = candidates w"
  using calculate_match_score_steps [of en c j w]
    resolve_candidate_keeps [OF assms, of en "extract_candidate_text c"]
    resolve_job_frame(1) [where en = en and j = j and t = "extract_job_text j"
      and w = "snd (resolve_candidate_embedding en c (extract_candidate_text c) w)"]
  by auto

lemma calculate_match_score_keeps_jobs:
  assumes "job_id j = Some i" and "find (\<lambda>d. job_id d = Some i) (jobs w) = Some r"
    and "truthy (job_embedding r)"
  shows "jobs (snd (calculate_match_score en c j w)) = jobs w"
proof -
  let ?w1 = "snd (resolve_candidate_embedding en c (extract_candidate_text c) w)"
  have j1: "jobs ?w1 = jobs w"
    by (rule resolve_candidate_frame)
  have "find (\<lambda>d. job_id d = Some i) (jobs ?w1) = Some r"
    using assms(2) j1 by simp
  from resolve_job_keeps [OF assms(1) this assms(3), of en "extract_job_text j"]
  show ?thesis
    using calculate_match_score_steps [of en c j w] j1 by auto
qed

subsection \<open>The loops and the reloading steps\<close>

lemma reload_candidate_frame:
  "jobs (snd (reload_candidate en c w)) = jobs w"
  "calls w \<le> calls (snd (reload_candidate en c w))"
  using embed_and_store_candidate_frame [where en = en and c = c and w = w]
  unfolding reload_candidate_def
  by (auto split: prod.splits sum.splits option.splits)

lemma reload_job_frame:
  "candidates (snd (reload_job en j w)) = candidates w"
  "calls w \<le> calls (snd (reload_job en j w))"
  using embed_and_store_job_frame [where en = en and j = j and w = w]
  unfolding reload_job_def
  by (auto split: prod.splits sum.splits option.splits)

lemma reload_candidate_overwrites:
  assumes "\<not> truthy (cand_embedding c)" and "extract_candidate_text c \<noteq> []"
    and "encode en (extract_candidate_text c) = Some v" and "cand_id c = Some i"
    and "find_ok en" and "update_ok en"
    and "find (\<lambda>d. cand_id d = Some i) (candidates w) = Some d"
  shows "reload_candidate en c w =
     (Inr (Some (d\<lparr>cand_embedding := Some v\<rparr>)),
      w\<lparr>candidates := set_first (\<lambda>d. cand_id d = Some i) (\<lambda>d. d\<lparr>cand_embedding := Some v\<rparr>) (candidates w),
        calls := calls w + 1\<rparr>)"
proof -
  have "find (\<lambda>d. cand_id d = Some i)
          (set_first (\<lambda>d. cand_id d = Some i) (\<lambda>d. d\<lparr>cand_embedding := Some v\<rparr>) (candidates w))
        = Some (d\<lparr>cand_embedding := Some v\<rparr>)"
    by (simp add: find_set_first assms(7))
  then show ?thesis
    using assms(1,4,5) embed_and_store_candidate_ok [OF assms(2,3,4,6), of w]
    by (simp add: reload_candidate_def find_one_def)
qed

lemma reload_job_overwrites:
  assumes "\<not> truthy (job_embedding j)" and "extract_job_text j \<noteq> []"
    and "encode en (extract_job_text j) = Some v" and "job_id j = Some i"
    and "find_ok en" and "update_ok en"
    and "find (\<lambda>d. job_id d = Some i) (jobs w) = Some d"
  shows "reload_job en j w =
     (Inr (Some (d\<lparr>job_embedding := Some v\<rparr>)),
      w\<lparr>jobs := set_first (\<lambda>d. job_id d = Some i) (\<lambda>d. d\<lparr>job_embedding := Some v\<rparr>) (jobs w),
        calls := calls w + 1\<rparr>)"
proof -
  have "find (\<lambda>d. job_id d = Some i)
          (set_first (\<lambda>d. job_id d = Some i) (\<lambda>d. d\<lparr>job_embedding := Some v\<rparr>) (jobs w))
        = Some (d\<lparr>job_embedding := Some v\<rparr>)"
    by (simp add: find_set_first assms(7))
  then show ?thesis
    using assms(1,4,5) embed_and_store_job_ok [OF assms(2,3,4,6), of w]
    by (simp add: reload_job_def find_one_def)
qed

lemma score_jobs_keeps_candidates:
  assumes "cand_id c = Some i" and "find (\<lambda>d. cand_id d = Some i) (candidates w) = Some r"
    and "truthy (cand_embedding r)"
  shows "candidates (snd (score_jobs en (Some c) js w)) = candidates w
         \<and> calls w \<le> calls (snd (score_jobs en (Some c) js w))"
  using assms(2)
proof (induction js arbitrary: w)
  case Nil
  then show ?case by simp
next
  case (Cons j js)
  let ?w1 = "snd (calculate_match_score en c j w)"
  have c1: "candidates ?w1 = candidates w"
    by (rule calculate_match_score_keeps_candidates [OF assms(1) Cons.prems assms(3)])
  have k1: "calls w \<le> calls ?w1"
    by (rule calculate_match_score_calls)
  have "find (\<lambda>d. cand_id d = Some i) (candidates ?w1) = Some r"
    using Cons.prems c1 by simp
  from Cons.IH [OF this]
  have ih: "candidates (snd (score_jobs en (Some c) js ?w1)) = candidates w"
    "calls w \<le> calls (snd (score_jobs en (Some c) js ?w1))"
    using c1 k1 by auto
  show ?case
    using c1 k1 ih
    by (cases "calculate_match_score en c j w")
      (auto split: sum.splits option.splits prod.splits)
qed

lemma score_candidates_run:
  "score_candidates en jb (c # cs) w =
     (case reload_candidate en c w of
        (Inl e, w1) \<Rightarrow> (Inl e, w1)
      | (Inr None, w1) \<Rightarrow> (Inl AttributeError, w1)
      | (Inr (Some candidate), w1) \<Rightarrow>
          (case jb of
             None \<Rightarrow> (Inl AttributeError, w1)
           | Some j \<Rightarrow>
               (case calculate_match_score en candidate j w1 of
                  (Inl e, w2) \<Rightarrow> (Inl e, w2)
                | (Inr score, w2) \<Rightarrow>
                    (case cand_id candidate of
                       None \<Rightarrow> (Inl KeyError, w2)
                     | Some i \<Rightarrow>
                         (case score_candidates en jb cs w2 of
                            (Inl e, w3) \<Rightarrow> (Inl e, w3)
                          | (Inr scored, w3) \<Rightarrow> (Inr ((candidate, score) # scored), w3))))))"
  unfolding score_candidates.simps reload_candidate_def ..

lemma score_candidates_keeps_jobs:
  assumes "job_id j = Some i" and "find (\<lambda>d. job_id d = Some i) (jobs w) = Some r"
    and "truthy (job_embedding r)"
  shows "jobs (snd (score_candidates en (Some j) cs w)) = jobs w
         \<and> calls w \<le> calls (snd (score_candidates en (Some j) cs w))"
  using assms(2)
proof (induction cs arbitrary: w)
  case Nil
  then show ?case by simp
next
  case (Cons c cs)
  obtain x w1 where rl: "reload_candidate en c w = (x, w1)"
    by (cases "reload_candidate en c w")
  have j1: "jobs w1 = jobs w" and k1: "calls w \<le> calls w1"
    using reload_candidate_frame [where en = en and c = c and w = w] rl by simp_all
  have f1: "find (\<lambda>d. job_id d = Some i) (jobs w1) = Some r"
    using Cons.prems j1 by simp
  show ?case
  proof (cases x)
    case (Inl e)
    then show ?thesis
      using rl j1 k1 by (simp add: score_candidates_run del: score_candidates.simps)
  next
    case (Inr o1)
    show ?thesis
    proof (cases o1)
      case None
      then show ?thesis
        using rl Inr j1 k1 by (simp add: score_candidates_run del: score_candidates.simps)
    next
      case (Some cand)
      let ?w2 = "snd (calculate_match_score en cand j w1)"
      have j2: "jobs ?w2 = jobs w"
        using calculate_match_score_keeps_jobs [OF assms(1) f1 assms(3), of en cand] j1 by simp
      have k2: "calls w \<le> calls ?w2"
        using calculate_match_score_calls [of w1 en cand j] k1 by simp
      have "find (\<lambda>d. job_id d = Some i) (jobs ?w2) = Some r"
        using Cons.prems j2 by simp
      from Cons.IH [OF this]
      have ih: "jobs (snd (score_candidates en (Some j) cs ?w2)) = jobs w"
        "calls w \<le> calls (snd (score_candidates en (Some j) cs ?w2))"
        using j2 k2 by auto
      show ?thesis
        using rl Inr Some j2 k2 ih
        by (cases "calculate_match_score en cand j w1")
          (auto simp add: score_candidates_run simp del: score_candidates.simps
            split: sum.splits option.splits prod.splits)
    qed
  qed
qed

lemma find_matching_candidates_run:
  "find_matching_candidates_for_job en s top_n w =
     (case (case ObjectId en s of
              Inl e \<Rightarrow> Inl e
            | Inr i \<Rightarrow> find_one en (\<lambda>d. job_id d = Some i) (jobs w)) of
        Inl e \<Rightarrow> (Inr [], w)
      | Inr None \<Rightarrow> (Inr [], w)
      | Inr (Some jb) \<Rightarrow>
          (case reload_job en jb w of
             (Inl e, w1) \<Rightarrow> (Inl e, w1)
           | (Inr jb1, w1) \<Rightarrow>
               (case find_all en (\<lambda>c. True) (candidates w1) of
                  Inl e \<Rightarrow> (Inl e, w1)
                | Inr cs \<Rightarrow>
                    (case score_candidates en jb1 (map (\<lambda>c. c\<lparr>password := None\<rparr>) cs) w1 of
                       (Inl e, w2) \<Rightarrow> (Inl e, w2)
                     | (Inr scored, w2) \<Rightarrow> (Inr (slice_to top_n (sort_by_score scored)), w2)))))"
  unfolding find_matching_candidates_for_job_def reload_job_def ..

subsection \<open>A stored embedding that is empty\<close>

lemma calculate_match_score_world:
  assumes "extract_candidate_text c \<noteq> []" and "extract_job_text j \<noteq> []"
    and "resolve_candidate_embedding en c (extract_candidate_text c) w = (Inr a, w1)"
  shows "snd (calculate_match_score en c j w)
           = snd (resolve_job_embedding en j (extract_job_text j) w1)"
  using assms by (simp add: calculate_match_score_def split: prod.splits sum.splits)

lemma calculate_match_score_reembeds_candidate:
  assumes tc: "extract_candidate_text c \<noteq> []" and tj: "extract_job_text j \<noteq> []"
    and v: "encode en (extract_candidate_text c) = Some v"
    and i: "cand_id c = Some i" and f: "find_ok en" and u: "update_ok en"
    and d: "find (\<lambda>d. cand_id d = Some i) (candidates w) = Some d"
    and e: "\<not> truthy (cand_embedding d)"
  shows "\<exists>x w'. calculate_match_score en c j w = (x, w')
           \<and> candidates w' = set_first (\<lambda>d. cand_id d = Some i)
                                (\<lambda>d. d\<lparr>cand_embedding := Some v\<rparr>) (candidates w)
           \<and> find (\<lambda>d. cand_id d = Some i) (candidates w') = Some (d\<lparr>cand_embedding := Some v\<rparr>)
           \<and> calls w < calls w'"
proof -
  let ?w1 = "w\<lparr>candidates := set_first (\<lambda>d. cand_id d = Some i)
                                (\<lambda>d. d\<lparr>cand_embedding := Some v\<rparr>) (candidates w),
                calls := calls w + 1\<rparr>"
  let ?w2 = "snd (resolve_job_embedding en j (extract_job_text j) ?w1)"
  have miss: "\<forall>d. find (\<lambda>d. cand_id d = Some i) (candidates w) = Some d \<longrightarrow> \<not> truthy (cand_embedding d)"
    using d e by simp
  have rc: "resolve_candidate_embedding en c (extract_candidate_text c) w = (Inr (Some v), ?w1)"
    by (rule resolve_candidate_miss [OF tc v i f u miss])
  have w': "snd (calculate_match_score en c j w) = ?w2"
    by (rule calculate_match_score_world [OF tc tj rc])
  have c2: "candidates ?w2 = candidates ?w1"
    by (rule resolve_job_frame)
  have k2: "calls ?w1 \<le> calls ?w2"
    by (rule resolve_job_frame)
  have fd: "find (\<lambda>d. cand_id d = Some i) (candidates ?w1) = Some (d\<lparr>cand_embedding := Some v\<rparr>)"
    by (simp add: find_set_first d)
  show ?thesis
    using w' c2 k2 fd by (cases "calculate_match_score en c j w") auto
qed

lemma calculate_match_score_reembeds_job:
  assumes tc: "extract_candidate_text c \<noteq> []" and tj: "extract_job_text j \<noteq> []"
    and vc: "encode en (extract_candidate_text c) = Some vc"
    and v: "encode en (extract_job_text j) = Some v"
    and i: "job_id j = Some i" and f: "find_ok en" and u: "update_ok en"
    and d: "find (\<lambda>d. job_id d = Some i) (jobs w) = Some d"
    and e: "\<not> truthy (job_embedding d)"
  shows "\<exists>x w'. calculate_match_score en c j w = (x, w')
           \<and> jobs w' = set_first (\<lambda>d. job_id d = Some i)
                          (\<lambda>d. d\<lparr>job_embedding := Some v\<rparr>) (jobs w)
           \<and> find (\<lambda>d. job_id d = Some i) (jobs w') = Some (d\<lparr>job_embedding := Some v\<rparr>)
           \<and> calls w < calls w'"
proof -
  from resolve_candidate_total [OF tc vc, of w]
  obtain a w1 where rc: "resolve_candidate_embedding en c (extract_candidate_text c) w = (Inr (Some a), w1)"
    and j1: "jobs w1 = jobs w"
    by blast
  have k1: "calls w \<le> calls w1"
    using resolve_candidate_frame(2) [where en = en and c = c and t = "extract_candidate_text c" and w = w] rc
    by simp
  have miss: "\<forall>d. find (\<lambda>d. job_id d = Some i) (jobs w1) = Some d \<longrightarrow> \<not> truthy (job_embedding d)"
    using d e j1 by simp
  have rj: "resolve_job_embedding en j (extract_job_text j) w1 =
     (Inr (Some v),
      w1\<lparr>jobs := set_first (\<lambda>d. job_id d = Some i) (\<lambda>d. d\<lparr>job_embedding := Some v\<rparr>) (jobs w1),
         calls := calls w1 + 1\<rparr>)"
    by (rule resolve_job_miss [OF tj v i f u miss])
  have w': "snd (calculate_match_score en c j w) =
      w1\<lparr>jobs := set_first (\<lambda>d. job_id d = Some i) (\<lambda>d. d\<lparr>job_embedding := Some v\<rparr>) (jobs w1),
         calls := calls w1 + 1\<rparr>"
    using calculate_match_score_world [OF tc tj rc] rj by simp
  have fd: "find (\<lambda>d. job_id d = Some i)
      (set_first (\<lambda>d. job_id d = Some i) (\<lambda>d. d\<lparr>job_embedding := Some v\<rparr>) (jobs w))
      = Some (d\<lparr>job_embedding := Some v\<rparr>)"
    by (simp add: find_set_first d)
  show ?thesis
    using w' j1 k1 fd by (cases "calculate_match_score en c j w") auto
qed

lemma find_matching_jobs_reembeds:
  assumes f: "find_ok en" and u: "update_ok en"
    and c: "find (\<lambda>c. email c = e) (candidates w) = Some c"
    and em: "\<not> truthy (cand_embedding c)"
    and i: "cand_id c = Some i"
    and d: "find (\<lambda>d. cand_id d = Some i) (candidates w) = Some d"
    and t: "extract_candidate_text c \<noteq> []"
    and v: "encode en (extract_candidate_text c) = Some v" and ne: "v \<noteq> []"
  shows "\<exists>x w'. find_matching_jobs_for_candidate en e top_n src w = (x, w')
           \<and> candidates w' = set_first (\<lambda>d. cand_id d = Some i)
                                (\<lambda>d. d\<lparr>cand_embedding := Some v\<rparr>) (candidates w)
           \<and> find (\<lambda>d. cand_id d = Some i) (candidates w') = Some (d\<lparr>cand_embedding := Some v\<rparr>)
           \<and> calls w < calls w'"
proof -
  let ?d1 = "d\<lparr>cand_embedding := Some v\<rparr>"
  let ?w1 = "w\<lparr>candidates := set_first (\<lambda>d. cand_id d = Some i)
                                (\<lambda>d. d\<lparr>cand_embedding := Some v\<rparr>) (candidates w),
                calls := calls w + 1\<rparr>"
  let ?js = "filter (source_query src) (jobs ?w1)"
  let ?w2 = "snd (score_jobs en (Some ?d1) ?js ?w1)"
  have rl: "reload_candidate en c w = (Inr (Some ?d1), ?w1)"
    by (rule reload_candidate_overwrites [OF em t v i f u d])
  have di: "cand_id ?d1 = Some i"
    using find_in_set [OF d] by simp
  have fd: "find (\<lambda>d. cand_id d = Some i) (candidates ?w1) = Some ?d1"
    by (simp add: find_set_first d)
  have tr: "truthy (cand_embedding ?d1)"
    using ne by (simp add: truthy_def)
  from score_jobs_keeps_candidates [OF di fd tr, of en ?js]
  have keep: "candidates ?w2 = candidates ?w1" and k2: "calls ?w1 \<le> calls ?w2"
    by simp_all
  have w': "snd (find_matching_jobs_for_candidate en e top_n src w) = ?w2"
    using c f rl
    by (simp add: find_matching_jobs_run find_one_def find_all_def split: prod.splits sum.splits)
  show ?thesis
    using w' keep k2 fd by (cases "find_matching_jobs_for_candidate en e top_n src w") auto
qed

lemma find_matching_candidates_reembeds:
  assumes f: "find_ok en" and u: "update_ok en"
    and s: "object_id en s = Some i"
    and j: "find (\<lambda>d. job_id d = Some i) (jobs w) = Some j"
    and em: "\<not> truthy (job_embedding j)"
    and t: "extract_job_text j \<noteq> []"
    and v: "encode en (extract_job_text j) = Some v" and ne: "v \<noteq> []"
  shows "\<exists>x w'. find_matching_candidates_for_job en s top_n w = (x, w')
           \<and> jobs w' = set_first (\<lambda>d. job_id d = Some i)
                          (\<lambda>d. d\<lparr>job_embedding := Some v\<rparr>) (jobs w)
           \<and> find (\<lambda>d. job_id d = Some i) (jobs w') = Some (j\<lparr>job_embedding := Some v\<rparr>)
           \<and> calls w < calls w'"
proof -
  let ?j1 = "j\<lparr>job_embedding := Some v\<rparr>"
  let ?w1 = "w\<lparr>jobs := set_first (\<lambda>d. job_id d = Some i)
                          (\<lambda>d. d\<lparr>job_embedding := Some v\<rparr>) (jobs w),
                calls := calls w + 1\<rparr>"
  let ?cs = "map (\<lambda>c. c\<lparr>password := None\<rparr>) (filter (\<lambda>c. True) (candidates ?w1))"
  let ?w2 = "snd (score_candidates en (Some ?j1) ?cs ?w1)"
  have ji: "job_id j = Some i"
    using find_in_set [OF j] by simp
  have rl: "reload_job en j w = (Inr (Some ?j1), ?w1)"
    by (rule reload_job_overwrites [OF em t v ji f u j])
  have ji1: "job_id ?j1 = Some i"
    using ji by simp
  have fd: "find (\<lambda>d. job_id d = Some i) (jobs ?w1) = Some ?j1"
    by (simp add: find_set_first j)
  have tr: "truthy (job_embedding ?j1)"
    using ne by (simp add: truthy_def)
  from score_candidates_keeps_jobs [OF ji1 fd tr, of en ?cs]
  have keep: "jobs ?w2 = jobs ?w1" and k2: "calls ?w1 \<le> calls ?w2"
    by simp_all
  have w': "snd (find_matching_candidates_for_job en s top_n w) = ?w2"
    using s j f rl
    by (simp add: find_matching_candidates_run ObjectId_def find_one_def find_all_def
          split: prod.splits sum.splits)
  show ?thesis
    using w' keep k2 fd by (cases "find_matching_candidates_for_job en s top_n w") auto
qed

subsection \<open>The candidates of the loop\<close>

lemma find_set_first_other:
  assumes "\<And>x. P x \<Longrightarrow> \<not> Q x \<and> \<not> Q (f x)"
  shows "find Q (set_first P f xs) = find Q xs"
  using assms by (induction xs) auto

lemma password_not_in_profile:
  "extract_candidate_text (c\<lparr>password := p\<rparr>) = extract_candidate_text c"
  by (simp add: extract_candidate_text_def)

lemma one_profile_set_first:
  assumes "one_profile i tx cs"
  shows "one_profile i tx (set_first (\<lambda>d. cand_id d = Some k) (\<lambda>d. d\<lparr>cand_embedding := Some v'\<rparr>) cs)"
proof -
  let ?f = "\<lambda>d. d\<lparr>cand_embedding := Some v'\<rparr>"
  let ?cs = "set_first (\<lambda>d. cand_id d = Some k) ?f cs"
  have a: "extract_candidate_text r = tx" if "r \<in> set ?cs" "cand_id r = Some i" for r
  proof -
    from set_set_first [OF that(1)]
    consider "r \<in> set cs" | y where "y \<in> set cs" "r = ?f y"
      by blast
    then show ?thesis
    proof cases
      case 1
      then show ?thesis
        using assms that(2) unfolding one_profile_def by blast
    next
      case 2
      then have "cand_id y = Some i"
        using that(2) by simp
      then have "extract_candidate_text y = tx"
        using assms 2(1) unfolding one_profile_def by blast
      then show ?thesis
        using 2(2) by (simp add: embedding_not_in_profile)
    qed
  qed
  from assms obtain r where r: "find (\<lambda>d. cand_id d = Some i) cs = Some r"
    unfolding one_profile_def by blast
  have b: "\<exists>r. find (\<lambda>d. cand_id d = Some i) ?cs = Some r"
  proof (cases "k = i")
    case True
    then show ?thesis
      using r by (simp add: find_set_first)
  next
    case False
    then have "find (\<lambda>d. cand_id d = Some i) ?cs = find (\<lambda>d. cand_id d = Some i) cs"
      by (intro find_set_first_other) simp
    then show ?thesis
      using r by simp
  qed
  show ?thesis
    unfolding one_profile_def using a b by blast
qed

lemma embedded_set_first:
  assumes "embedded i v cs" and "k = i \<longrightarrow> v' = v"
  shows "embedded i v (set_first (\<lambda>d. cand_id d = Some k) (\<lambda>d. d\<lparr>cand_embedding := Some v'\<rparr>) cs)"
proof (cases "k = i")
  case True
  then show ?thesis
    using assms unfolding embedded_def by (auto simp add: find_set_first)
next
  case False
  then have "find (\<lambda>d. cand_id d = Some i)
        (set_first (\<lambda>d. cand_id d = Some k) (\<lambda>d. d\<lparr>cand_embedding := Some v'\<rparr>) cs)
      = find (\<lambda>d. cand_id d = Some i) cs"
    by (intro find_set_first_other) simp
  then show ?thesis
    using assms(1) unfolding embedded_def by simp
qed

text \<open>
  What \<^verbatim>\<open>embed_and_store_candidate\<close> does to the candidates: nothing, or it sets the embedding
  of the record found under the candidate's identity to the vector of the candidate's text.
\<close>

lemma embed_and_store_candidate_candidates:
  "candidates (snd (embed_and_store_candidate en c w)) = candidates w
   \<or> (\<exists>k v'. cand_id c = Some k \<and> encode en (extract_candidate_text c) = Some v'
         \<and> candidates (snd (embed_and_store_candidate en c w))
             = set_first (\<lambda>d. cand_id d = Some k) (\<lambda>d. d\<lparr>cand_embedding := Some v'\<rparr>) (candidates w))"
  by (auto simp add: embed_and_store_candidate_def encode_text_def update_one_def Let_def
        split: option.splits sum.splits prod.splits if_splits)

lemma resolve_candidate_candidates:
  "candidates (snd (resolve_candidate_embedding en c t w)) = candidates w
   \<or> candidates (snd (resolve_candidate_embedding en c t w))
       = candidates (snd (embed_and_store_candidate en c w))"
proof -
  obtain x w1 where t: "try_candidate_embedding en c t w = (x, w1)"
    by (cases "try_candidate_embedding en c t w")
  have a: "candidates w1 = candidates w \<or> candidates w1 = candidates (snd (embed_and_store_candidate en c w))"
    using t encode_text_frame(1) [where en = en and t = t and w = w]
    by (auto simp add: try_candidate_embedding_def split: option.splits sum.splits if_splits)
  have b: "candidates (snd (encode_text en t w1)) = candidates w1"
    by (rule encode_text_frame)
  show ?thesis
    using t a b by (cases x) (auto simp add: resolve_candidate_embedding_def)
qed

lemma calculate_match_score_candidates:
  "candidates (snd (calculate_match_score en c j w)) = candidates w
   \<or> candidates (snd (calculate_match_score en c j w))
       = candidates (snd (embed_and_store_candidate en c w))"
  using calculate_match_score_steps [of en c j w]
    resolve_candidate_candidates [of en c "extract_candidate_text c" w]
    resolve_job_frame(1) [where en = en and j = j and t = "extract_job_text j"
      and w = "snd (resolve_candidate_embedding en c (extract_candidate_text c) w)"]
  by auto

lemma embed_and_store_candidate_one_profile:
  assumes "one_profile i tx (candidates w)"
  shows "one_profile i tx (candidates (snd (embed_and_store_candidate en c w)))"
  using embed_and_store_candidate_candidates [of en c w] one_profile_set_first [OF assms] assms
  by auto

lemma embed_and_store_candidate_embedded:
  assumes "embedded i v (candidates w)" and "encode en tx = Some v"
    and "cand_id c = Some i \<longrightarrow> extract_candidate_text c = tx"
  shows "embedded i v (candidates (snd (embed_and_store_candidate en c w)))"
proof -
  from embed_and_store_candidate_candidates [of en c w]
  consider "candidates (snd (embed_and_store_candidate en c w)) = candidates w"
    | k v' where "cand_id c = Some k" "encode en (extract_candidate_text c) = Some v'"
        "candidates (snd (embed_and_store_candidate en c w))
             = set_first (\<lambda>d. cand_id d = Some k) (\<lambda>d. d\<lparr>cand_embedding := Some v'\<rparr>) (candidates w)"
    by blast
  then show ?thesis
  proof cases
    case 1
    then show ?thesis
      using assms(1) by simp
  next
    case 2
    have "k = i \<longrightarrow> v' = v"
      using 2(1,2) assms(2,3) by auto
    from embedded_set_first [OF assms(1) this] show ?thesis
      using 2(3) by simp
  qed
qed

lemma calculate_match_score_one_profile:
  assumes "one_profile i tx (candidates w)"
  shows "one_profile i tx (candidates (snd (calculate_match_score en c j w)))"
  using calculate_match_score_candidates [of en c j w] assms
    embed_and_store_candidate_one_profile [OF assms, of en c]
  by auto

lemma calculate_match_score_embedded:
  assumes "embedded i v (candidates w)" and "encode en tx = Some v"
    and "cand_id c = Some i \<longrightarrow> extract_candidate_text c = tx"
  shows "embedded i v (candidates (snd (calculate_match_score en c j w)))"
  using calculate_match_score_candidates [of en c j w] assms(1)
    embed_and_store_candidate_embedded [OF assms]
  by auto

lemma reload_candidate_candidates:
  "candidates (snd (reload_candidate en c w)) = candidates w
   \<or> candidates (snd (reload_candidate en c w)) = candidates (snd (embed_and_store_candidate en c w))"
  unfolding reload_candidate_def
  by (auto split: prod.splits sum.splits option.splits)

lemma reload_candidate_result:
  assumes "reload_candidate en c w = (Inr (Some c'), w1)"
  shows "c' = c \<or> (c' \<in> set (candidates w1) \<and> cand_id c' = cand_id c)"
  using assms unfolding reload_candidate_def
  by (auto simp add: find_one_def split: prod.splits sum.splits option.splits if_splits
        dest: find_in_set)

lemma reload_candidate_one_profile:
  assumes "one_profile i tx (candidates w)"
  shows "one_profile i tx (candidates (snd (reload_candidate en c w)))"
  using reload_candidate_candidates [of en c w] assms
    embed_and_store_candidate_one_profile [OF assms, where en = en and c = c]
  by auto

lemma reload_candidate_embedded:
  assumes "embedded i v (candidates w)" and "encode en tx = Some v"
    and "cand_id c = Some i \<longrightarrow> extract_candidate_text c = tx"
  shows "embedded i v (candidates (snd (reload_candidate en c w)))"
  using reload_candidate_candidates [of en c w] assms(1)
    embed_and_store_candidate_embedded [OF assms]
  by auto

lemma reload_candidate_profile:
  assumes "reload_candidate en c w = (Inr (Some c'), w1)"
    and "one_profile i tx (candidates w)"
    and "cand_id c = Some i \<longrightarrow> extract_candidate_text c = tx"
  shows "cand_id c' = Some i \<longrightarrow> extract_candidate_text c' = tx"
proof -
  have "one_profile i tx (candidates w1)"
    using reload_candidate_one_profile [OF assms(2), where en = en and c = c] assms(1) by simp
  then show ?thesis
    using reload_candidate_result [OF assms(1)] assms(3) unfolding one_profile_def by blast
qed

lemma score_candidates_Inr_Cons:
  assumes "score_candidates en jb (h # rest) w = (Inr scored, w')"
  shows "\<exists>h' w1 j s w2 rest'. reload_candidate en h w = (Inr (Some h'), w1) \<and> jb = Some j
           \<and> calculate_match_score en h' j w1 = (Inr s, w2)
           \<and> score_candidates en jb rest w2 = (Inr rest', w')"
  using assms
  by (auto simp add: score_candidates_run simp del: score_candidates.simps
        split: prod.splits sum.splits option.splits)

lemma score_candidates_preserves:
  assumes enc: "encode en tx = Some v"
    and all: "\<forall>c. c \<in> set cs \<longrightarrow> (cand_id c = Some i \<longrightarrow> extract_candidate_text c = tx)"
    and p: "one_profile i tx (candidates w)" and e: "embedded i v (candidates w)"
  shows "one_profile i tx (candidates (snd (score_candidates en jb cs w)))
         \<and> embedded i v (candidates (snd (score_candidates en jb cs w)))"
  using all p e
proof (induction cs arbitrary: w)
  case Nil
  then show ?case by simp
next
  case (Cons h rest)
  obtain x w1 where rl: "reload_candidate en h w = (x, w1)"
    by (cases "reload_candidate en h w")
  have hp: "cand_id h = Some i \<longrightarrow> extract_candidate_text h = tx"
    using Cons.prems(1) by simp
  have p1: "one_profile i tx (candidates w1)"
    using reload_candidate_one_profile [OF Cons.prems(2), where en = en and c = h] rl by simp
  have e1: "embedded i v (candidates w1)"
    using reload_candidate_embedded [OF Cons.prems(3) enc hp] rl by simp
  show ?case
  proof (cases x)
    case (Inl err)
    then show ?thesis
      using rl p1 e1 by (simp add: score_candidates_run del: score_candidates.simps)
  next
    case (Inr o1)
    show ?thesis
    proof (cases o1)
      case None
      then show ?thesis
        using rl Inr p1 e1 by (simp add: score_candidates_run del: score_candidates.simps)
    next
      case (Some h')
      have hp': "cand_id h' = Some i \<longrightarrow> extract_candidate_text h' = tx"
        using reload_candidate_profile [OF _ Cons.prems(2) hp] rl Inr Some by simp
      show ?thesis
      proof (cases jb)
        case None
        then show ?thesis
          using rl Inr Some p1 e1 by (simp add: score_candidates_run del: score_candidates.simps)
      next
        case j: (Some j)
        let ?w2 = "snd (calculate_match_score en h' j w1)"
        have p2: "one_profile i tx (candidates ?w2)"
          by (rule calculate_match_score_one_profile [OF p1])
        have e2: "embedded i v (candidates ?w2)"
          by (rule calculate_match_score_embedded [OF e1 enc hp'])
        have rest: "\<forall>c. c \<in> set rest \<longrightarrow> (cand_id c = Some i \<longrightarrow> extract_candidate_text c = tx)"
          using Cons.prems(1) by simp
        from Cons.IH [OF rest p2 e2]
        have ih: "one_profile i tx (candidates (snd (score_candidates en jb rest ?w2)))"
          "embedded i v (candidates (snd (score_candidates en jb rest ?w2)))"
          by simp_all
        show ?thesis
          using rl Inr Some j p2 e2 ih
          by (cases "calculate_match_score en h' j w1")
            (auto simp add: score_candidates_run simp del: score_candidates.simps
              split: sum.splits option.splits prod.splits)
      qed
    qed
  qed
qed

lemma score_candidates_embeds:
  assumes f: "find_ok en" and u: "update_ok en"
    and enc: "encode en tx = Some v" and tx: "tx \<noteq> []"
    and all: "\<forall>c. c \<in> set cs \<longrightarrow> (cand_id c = Some i \<longrightarrow> extract_candidate_text c = tx)"
    and p: "one_profile i tx (candidates w)"
    and c: "c \<in> set cs" and em: "\<not> truthy (cand_embedding c)" and ci: "cand_id c = Some i"
    and run: "score_candidates en jb cs w = (Inr scored, w')"
  shows "embedded i v (candidates w')"
  using all p c run
proof (induction cs arbitrary: w scored)
  case Nil
  then show ?case by simp
next
  case (Cons h rest)
  from score_candidates_Inr_Cons [OF Cons.prems(4)]
  obtain h' w1 j s w2 rest' where rl: "reload_candidate en h w = (Inr (Some h'), w1)"
    and jb: "jb = Some j"
    and sc: "calculate_match_score en h' j w1 = (Inr s, w2)"
    and lp: "score_candidates en jb rest w2 = (Inr rest', w')"
    by blast
  have hp: "cand_id h = Some i \<longrightarrow> extract_candidate_text h = tx"
    using Cons.prems(1) by simp
  have hp': "cand_id h' = Some i \<longrightarrow> extract_candidate_text h' = tx"
    by (rule reload_candidate_profile [OF rl Cons.prems(2) hp])
  have p1: "one_profile i tx (candidates w1)"
    using reload_candidate_one_profile [OF Cons.prems(2), where en = en and c = h] rl by simp
  have p2: "one_profile i tx (candidates w2)"
    using calculate_match_score_one_profile [OF p1, where en = en and c = h' and j = j] sc by simp
  have rest: "\<forall>c. c \<in> set rest \<longrightarrow> (cand_id c = Some i \<longrightarrow> extract_candidate_text c = tx)"
    using Cons.prems(1) by simp
  show ?case
  proof (cases "c = h")
    case True
    from Cons.prems(2) obtain d where d: "find (\<lambda>d. cand_id d = Some i) (candidates w) = Some d"
      unfolding one_profile_def by blast
    have t: "extract_candidate_text h \<noteq> []" and v: "encode en (extract_candidate_text h) = Some v"
      using True ci hp tx enc by simp_all
    have "reload_candidate en h w =
       (Inr (Some (d\<lparr>cand_embedding := Some v\<rparr>)),
        w\<lparr>candidates := set_first (\<lambda>d. cand_id d = Some i) (\<lambda>d. d\<lparr>cand_embedding := Some v\<rparr>) (candidates w),
          calls := calls w + 1\<rparr>)"
      using reload_candidate_overwrites [OF _ t v _ f u d] True em ci by simp
    then have "candidates w1 = set_first (\<lambda>d. cand_id d = Some i) (\<lambda>d. d\<lparr>cand_embedding := Some v\<rparr>) (candidates w)"
      using rl by simp
    then have e1: "embedded i v (candidates w1)"
      using d by (simp add: embedded_def find_set_first)
    have e2: "embedded i v (candidates w2)"
      using calculate_match_score_embedded [OF e1 enc hp', where j = j] sc by simp
    show ?thesis
      using score_candidates_preserves [OF enc rest p2 e2, where jb = jb] lp by simp
  next
    case False
    then have "c \<in> set rest"
      using Cons.prems(3) by simp
    from Cons.IH [OF rest p2 this lp] show ?thesis .
  qed
qed

lemma find_matching_candidates_embeds_candidate:
  assumes f: "find_ok en" and u: "update_ok en"
    and s: "object_id en s = Some ij"
    and j: "find (\<lambda>d. job_id d = Some ij) (jobs w) = Some jb"
    and c: "c \<in> set (candidates w)" and em: "\<not> truthy (cand_embedding c)"
    and ci: "cand_id c = Some i"
    and uniq: "\<forall>r. r \<in> set (candidates w) \<and> cand_id r = Some i
                 \<longrightarrow> extract_candidate_text r = extract_candidate_text c"
    and t: "extract_candidate_text c \<noteq> []"
    and v: "encode en (extract_candidate_text c) = Some v"
    and run: "find_matching_candidates_for_job en s top_n w = (Inr res, w')"
  shows "\<exists>r. find (\<lambda>d. cand_id d = Some i) (candidates w') = Some r \<and> cand_embedding r = Some v"
proof -
  let ?tx = "extract_candidate_text c"
  let ?pw = "\<lambda>c. c\<lparr>password := None\<rparr>"
  obtain x w1 where rl: "reload_job en jb w = (x, w1)"
    by (cases "reload_job en jb w")
  have c1: "candidates w1 = candidates w"
    using reload_job_frame(1) [where en = en and j = jb and w = w] rl by simp
  from run s j f rl obtain jb1 scored
    where sc: "score_candidates en jb1 (map ?pw (candidates w1)) w1 = (Inr scored, w')"
    by (auto simp add: find_matching_candidates_run ObjectId_def find_one_def find_all_def
          split: prod.splits sum.splits)
  from find_exists [of c "candidates w" "\<lambda>d. cand_id d = Some i"] c ci
  have "\<exists>r. find (\<lambda>d. cand_id d = Some i) (candidates w) = Some r"
    by simp
  then have p: "one_profile i ?tx (candidates w1)"
    using uniq c1 unfolding one_profile_def by simp
  have all: "\<forall>a. a \<in> set (map ?pw (candidates w1))
               \<longrightarrow> (cand_id a = Some i \<longrightarrow> extract_candidate_text a = ?tx)"
    using uniq c1 by (auto simp add: password_not_in_profile)
  have mem: "?pw c \<in> set (map ?pw (candidates w1))"
    using c c1 by simp
  have em': "\<not> truthy (cand_embedding (?pw c))" and ci': "cand_id (?pw c) = Some i"
    using em ci by simp_all
  from score_candidates_embeds [OF f u v t all p mem em' ci' sc]
  show ?thesis
    unfolding embedded_def .
qed

subsection \<open>The sample store with empty embeddings\<close>

lemma job_embedding_not_in_posting:
  "extract_job_text (j\<lparr>job_embedding := e\<rparr>) = extract_job_text j"
  "calculate_skill_match c (j\<lparr>job_embedding := e\<rparr>) = calculate_skill_match c j"
  by (simp_all add: extract_job_text_def calculate_skill_match_def)

lemma sample_ids:
  "cand_id sample_candidate = Some ''65f0a1b2c3d4e5f601234567''"
  "job_id sample_job = Some ''65f0a1b2c3d4e5f6012345aa''"
  "find_ok sample_env" "update_ok sample_env"
  "object_id sample_env ''65f0a1b2c3d4e5f6012345aa'' = Some ''65f0a1b2c3d4e5f6012345aa''"
  by (simp_all add: sample_candidate_def sample_job_def sample_env_def hex24_samples)

lemma sample_empty_search:
  "find_matching_candidates_for_job sample_env ''65f0a1b2c3d4e5f6012345aa'' 10 sample_world_empty
     = (Inr [(sample_candidate\<lparr>cand_embedding := Some [3, 4]\<rparr>, 0.701)],
        \<lparr>candidates = [sample_candidate\<lparr>cand_embedding := Some [3, 4]\<rparr>],
         jobs = [sample_job\<lparr>job_embedding := Some [4, 3]\<rparr>], calls = 2\<rparr>)"
proof -
  let ?ce = "sample_candidate\<lparr>cand_embedding := Some []\<rparr>"
  let ?je = "sample_job\<lparr>job_embedding := Some []\<rparr>"
  let ?c = "sample_candidate\<lparr>cand_embedding := Some [3, 4]\<rparr>"
  let ?j = "sample_job\<lparr>job_embedding := Some [4, 3]\<rparr>"
  let ?w1 = "\<lparr>candidates = [?ce], jobs = [?j], calls = 1\<rparr>"
  let ?w2 = "\<lparr>candidates = [?c], jobs = [?j], calls = 2\<rparr>"
  have fj: "find (\<lambda>d. job_id d = Some ''65f0a1b2c3d4e5f6012345aa'') (jobs sample_world_empty) = Some ?je"
    by (simp add: sample_world_empty_def sample_ids)
  have lookup: "(case ObjectId sample_env ''65f0a1b2c3d4e5f6012345aa'' of
              Inl e \<Rightarrow> Inl e
            | Inr i \<Rightarrow> find_one sample_env (\<lambda>d. job_id d = Some i) (jobs sample_world_empty))
        = Inr (Some ?je)"
    by (simp add: ObjectId_def sample_ids find_one_def fj)
  have rj: "reload_job sample_env ?je sample_world_empty = (Inr (Some ?j), ?w1)"
    using reload_job_overwrites [where en = sample_env and j = ?je and v = "[4, 3]"
        and i = "''65f0a1b2c3d4e5f6012345aa''" and w = sample_world_empty and d = ?je]
    by (simp add: truthy_def job_embedding_not_in_posting sample_text_parity sample_encode sample_ids fj)
      (simp add: sample_world_empty_def sample_ids)
  have all: "find_all sample_env (\<lambda>c. True) (candidates ?w1) = Inr [?ce]"
    by (simp add: find_all_def sample_ids)
  have pw: "map (\<lambda>c. c\<lparr>password := None\<rparr>) [?ce] = [?ce]"
    by (simp add: sample_candidate_def)
  have rc: "reload_candidate sample_env ?ce ?w1 = (Inr (Some ?c), ?w2)"
    using reload_candidate_overwrites [where en = sample_env and c = ?ce and v = "[3, 4]"
        and i = "''65f0a1b2c3d4e5f601234567''" and w = ?w1 and d = ?ce]
    by (simp add: truthy_def embedding_not_in_profile sample_text_parity sample_encode sample_ids)
  have sc: "calculate_match_score sample_env ?c ?j ?w2 = (Inr 0.701, ?w2)"
    using calculate_match_score_hit [where en = sample_env and c = ?c and j = ?j and w = ?w2
        and ic = "''65f0a1b2c3d4e5f601234567''" and ij = "''65f0a1b2c3d4e5f6012345aa''"
        and dc = ?c and dj = ?j]
    by (simp add: truthy_def sample_ids embedding_not_in_profile job_embedding_not_in_posting
          sample_text_parity cosine_sample sample_final_score)
  have ci: "cand_id ?c = Some ''65f0a1b2c3d4e5f601234567''"
    by (simp add: sample_ids)
  have loop: "score_candidates sample_env (Some ?j) [?ce] ?w1 = (Inr [(?c, 0.701)], ?w2)"
    by (simp only: score_candidates_run rc sc ci score_candidates.simps(1)
          option.case prod.case sum.case)
  have srt: "slice_to 10 (sort_by_score [(?c, 0.701 :: real)]) = [(?c, 0.701)]"
    by (simp add: sort_by_score_def slice_to_def)
  show ?thesis
    by (simp only: find_matching_candidates_run lookup rj all pw loop srt
          option.case prod.case sum.case)
qed

subsection \<open>Recomputing and overwriting\<close>

text \<open>
  Claim C10. A stored embedding that is present and empty is treated exactly as a missing
  one: the field is tested by truthiness, which is false for both. In
  \<^verbatim>\<open>calculate_match_score\<close> (for the candidate and for the job), in
  \<^verbatim>\<open>find_matching_jobs_for_candidate\<close> (for the candidate) and in
  \<^verbatim>\<open>find_matching_candidates_for_job\<close> (for the job, and for every candidate of the loop), a
  record whose embedding is empty or missing, and whose text is not empty, has its embedding
  computed by the model and written over the stored value, where the store works and the
  model returns a vector: after the operation the record found under its identity carries
  the vector of the model, and the model has been called.
\<close>

theorem empty_embedding_recomputed:
  "truthy (Some []) = truthy None
   \<and> (extract_candidate_text c \<noteq> [] \<and> extract_job_text j \<noteq> []
      \<and> encode en (extract_candidate_text c) = Some vc
      \<and> cand_id c = Some ic \<and> find_ok en \<and> update_ok en
      \<and> find (\<lambda>d. cand_id d = Some ic) (candidates w) = Some dc
      \<and> (cand_embedding dc = Some [] \<or> cand_embedding dc = None)
     \<longrightarrow> (\<exists>x w'. calculate_match_score en c j w = (x, w')
            \<and> candidates w' = set_first (\<lambda>d. cand_id d = Some ic)
                                 (\<lambda>d. d\<lparr>cand_embedding := Some vc\<rparr>) (candidates w)
            \<and> find (\<lambda>d. cand_id d = Some ic) (candidates w') = Some (dc\<lparr>cand_embedding := Some vc\<rparr>)
            \<and> calls w < calls w'))
   \<and> (extract_candidate_text c \<noteq> [] \<and> extract_job_text j \<noteq> []
      \<and> encode en (extract_candidate_text c) = Some vc
      \<and> encode en (extract_job_text j) = Some vj
      \<and> job_id j = Some ij \<and> find_ok en \<and> update_ok en
      \<and> find (\<lambda>d. job_id d = Some ij) (jobs w) = Some dj
      \<and> (job_embedding dj = Some [] \<or> job_embedding dj = None)
     \<longrightarrow> (\<exists>x w'. calculate_match_score en c j w = (x, w')
            \<and> jobs w' = set_first (\<lambda>d. job_id d = Some ij)
                           (\<lambda>d. d\<lparr>job_embedding := Some vj\<rparr>) (jobs w)
            \<and> find (\<lambda>d. job_id d = Some ij) (jobs w') = Some (dj\<lparr>job_embedding := Some vj\<rparr>)
            \<and> calls w < calls w'))
   \<and> (find_ok en \<and> update_ok en
      \<and> find (\<lambda>c. email c = e) (candidates w) = Some c
      \<and> (cand_embedding c = Some [] \<or> cand_embedding c = None)
      \<and> cand_id c = Some ic
      \<and> find (\<lambda>d. cand_id d = Some ic) (candidates w) = Some dc
      \<and> extract_candidate_text c \<noteq> []
      \<and> encode en (extract_candidate_text c) = Some vc \<and> vc \<noteq> []
     \<longrightarrow> (\<exists>x w'. find_matching_jobs_for_candidate en e top_n src w = (x, w')
            \<and> candidates w' = set_first (\<lambda>d. cand_id d = Some ic)
                                 (\<lambda>d. d\<lparr>cand_embedding := Some vc\<rparr>) (candidates w)
            \<and> find (\<lambda>d. cand_id d = Some ic) (candidates w') = Some (dc\<lparr>cand_embedding := Some vc\<rparr>)
            \<and> calls w < calls w'))
   \<and> (find_ok en \<and> update_ok en
      \<and> object_id en s = Some ij
      \<and> find (\<lambda>d. job_id d = Some ij) (jobs w) = Some j
      \<and> (job_embedding j = Some [] \<or> job_embedding j = None)
      \<and> extract_job_text j \<noteq> []
      \<and> encode en (extract_job_text j) = Some vj \<and> vj \<noteq> []
     \<longrightarrow> (\<exists>x w'. find_matching_candidates_for_job en s top_n w = (x, w')
            \<and> jobs w' = set_first (\<lambda>d. job_id d = Some ij)
                           (\<lambda>d. d\<lparr>job_embedding := Some vj\<rparr>) (jobs w)
            \<and> find (\<lambda>d. job_id d = Some ij) (jobs w') = Some (j\<lparr>job_embedding := Some vj\<rparr>)
            \<and> calls w < calls w'))
   \<and> (find_ok en \<and> update_ok en
      \<and> object_id en s = Some ij
      \<and> find (\<lambda>d. job_id d = Some ij) (jobs w) = Some j
      \<and> c \<in> set (candidates w)
      \<and> (cand_embedding c = Some [] \<or> cand_embedding c = None)
      \<and> cand_id c = Some ic
      \<and> (\<forall>r. r \<in> set (candidates w) \<and> cand_id r = Some ic
             \<longrightarrow> extract_candidate_text r = extract_candidate_text c)
      \<and> extract_candidate_text c \<noteq> []
      \<and> encode en (extract_candidate_text c) = Some vc
      \<and> find_matching_candidates_for_job en s top_n w = (Inr res, w')
     \<longrightarrow> (\<exists>r. find (\<lambda>d. cand_id d = Some ic) (candidates w') = Some r
            \<and> cand_embedding r = Some vc))"
proof -
  have nt: "\<not> truthy x" if "x = Some [] \<or> x = None" for x
    using that by (auto simp add: truthy_def)
  have t: "truthy (Some []) = truthy None"
    by (simp add: truthy_def)
  have A: "\<exists>x w'. calculate_match_score en c j w = (x, w')
            \<and> candidates w' = set_first (\<lambda>d. cand_id d = Some ic)
                                 (\<lambda>d. d\<lparr>cand_embedding := Some vc\<rparr>) (candidates w)
            \<and> find (\<lambda>d. cand_id d = Some ic) (candidates w') = Some (dc\<lparr>cand_embedding := Some vc\<rparr>)
            \<and> calls w < calls w'"
    if "extract_candidate_text c \<noteq> [] \<and> extract_job_text j \<noteq> []
      \<and> encode en (extract_candidate_text c) = Some vc
      \<and> cand_id c = Some ic \<and> find_ok en \<and> update_ok en
      \<and> find (\<lambda>d. cand_id d = Some ic) (candidates w) = Some dc
      \<and> (cand_embedding dc = Some [] \<or> cand_embedding dc = None)"
  proof -
    from that have h: "extract_candidate_text c \<noteq> []" "extract_job_text j \<noteq> []"
      "encode en (extract_candidate_text c) = Some vc" "cand_id c = Some ic" "find_ok en" "update_ok en"
      "find (\<lambda>d. cand_id d = Some ic) (candidates w) = Some dc" "\<not> truthy (cand_embedding dc)"
      using nt [of "cand_embedding dc"] by blast+
    show ?thesis
      by (rule calculate_match_score_reembeds_candidate [OF h])
  qed
  have B: "\<exists>x w'. calculate_match_score en c j w = (x, w')
            \<and> jobs w' = set_first (\<lambda>d. job_id d = Some ij)
                           (\<lambda>d. d\<lparr>job_embedding := Some vj\<rparr>) (jobs w)
            \<and> find (\<lambda>d. job_id d = Some ij) (jobs w') = Some (dj\<lparr>job_embedding := Some vj\<rparr>)
            \<and> calls w < calls w'"
    if "extract_candidate_text c \<noteq> [] \<and> extract_job_text j \<noteq> []
      \<and> encode en (extract_candidate_text c) = Some vc
      \<and> encode en (extract_job_text j) = Some vj
      \<and> job_id j = Some ij \<and> find_ok en \<and> update_ok en
      \<and> find (\<lambda>d. job_id d = Some ij) (jobs w) = Some dj
      \<and> (job_embedding dj = Some [] \<or> job_embedding dj = None)"
  proof -
    from that have h: "extract_candidate_text c \<noteq> []" "extract_job_text j \<noteq> []"
      "encode en (extract_candidate_text c) = Some vc" "encode en (extract_job_text j) = Some vj"
      "job_id j = Some ij" "find_ok en" "update_ok en"
      "find (\<lambda>d. job_id d = Some ij) (jobs w) = Some dj" "\<not> truthy (job_embedding dj)"
      using nt [of "job_embedding dj"] by blast+
    show ?thesis
      by (rule calculate_match_score_reembeds_job [OF h])
  qed
  have C: "\<exists>x w'. find_matching_jobs_for_candidate en e top_n src w = (x, w')
            \<and> candidates w' = set_first (\<lambda>d. cand_id d = Some ic)
                                 (\<lambda>d. d\<lparr>cand_embedding := Some vc\<rparr>) (candidates w)
            \<and> find (\<lambda>d. cand_id d = Some ic) (candidates w') = Some (dc\<lparr>cand_embedding := Some vc\<rparr>)
            \<and> calls w < calls w'"
    if "find_ok en \<and> update_ok en
      \<and> find (\<lambda>c. email c = e) (candidates w) = Some c
      \<and> (cand_embedding c = Some [] \<or> cand_embedding c = None)
      \<and> cand_id c = Some ic
      \<and> find (\<lambda>d. cand_id d = Some ic) (candidates w) = Some dc
      \<and> extract_candidate_text c \<noteq> []
      \<and> encode en (extract_candidate_text c) = Some vc \<and> vc \<noteq> []"
  proof -
    from that have h: "find_ok en" "update_ok en"
      "find (\<lambda>c. email c = e) (candidates w) = Some c" "\<not> truthy (cand_embedding c)"
      "cand_id c = Some ic" "find (\<lambda>d. cand_id d = Some ic) (candidates w) = Some dc"
      "extract_candidate_text c \<noteq> []" "encode en (extract_candidate_text c) = Some vc" "vc \<noteq> []"
      using nt [of "cand_embedding c"] by blast+
    show ?thesis
      by (rule find_matching_jobs_reembeds [OF h])
  qed
  have D: "\<exists>x w'. find_matching_candidates_for_job en s top_n w = (x, w')
            \<and> jobs w' = set_first (\<lambda>d. job_id d = Some ij)
                           (\<lambda>d. d\<lparr>job_embedding := Some vj\<rparr>) (jobs w)
            \<and> find (\<lambda>d. job_id d = Some ij) (jobs w') = Some (j\<lparr>job_embedding := Some vj\<rparr>)
            \<and> calls w < calls w'"
    if "find_ok en \<and> update_ok en
      \<and> object_id en s = Some ij
      \<and> find (\<lambda>d. job_id d = Some ij) (jobs w) = Some j
      \<and> (job_embedding j = Some [] \<or> job_embedding j = None)
      \<and> extract_job_text j \<noteq> []
      \<and> encode en (extract_job_text j) = Some vj \<and> vj \<noteq> []"
  proof -
    from that have h: "find_ok en" "update_ok en" "object_id en s = Some ij"
      "find (\<lambda>d. job_id d = Some ij) (jobs w) = Some j" "\<not> truthy (job_embedding j)"
      "extract_job_text j \<noteq> []" "encode en (extract_job_text j) = Some vj" "vj \<noteq> []"
      using nt [of "job_embedding j"] by blast+
    show ?thesis
      by (rule find_matching_candidates_reembeds [OF h])
  qed
  have E: "\<exists>r. find (\<lambda>d. cand_id d = Some ic) (candidates w') = Some r
            \<and> cand_embedding r = Some vc"
    if "find_ok en \<and> update_ok en
      \<and> object_id en s = Some ij
      \<and> find (\<lambda>d. job_id d = Some ij) (jobs w) = Some j
      \<and> c \<in> set (candidates w)
      \<and> (cand_embedding c = Some [] \<or> cand_embedding c = None)
      \<and> cand_id c = Some ic
      \<and> (\<forall>r. r \<in> set (candidates w) \<and> cand_id r = Some ic
             \<longrightarrow> extract_candidate_text r = extract_candidate_text c)
      \<and> extract_candidate_text c \<noteq> []
      \<and> encode en (extract_candidate_text c) = Some vc
      \<and> find_matching_candidates_for_job en s top_n w = (Inr res, w')"
  proof -
    from that have h: "find_ok en" "update_ok en" "object_id en s = Some ij"
      "find (\<lambda>d. job_id d = Some ij) (jobs w) = Some j" "c \<in> set (candidates w)"
      "\<not> truthy (cand_embedding c)" "cand_id c = Some ic"
      "\<forall>r. r \<in> set (candidates w) \<and> cand_id r = Some ic
             \<longrightarrow> extract_candidate_text r = extract_candidate_text c"
      "extract_candidate_text c \<noteq> []" "encode en (extract_candidate_text c) = Some vc"
      "find_matching_candidates_for_job en s top_n w = (Inr res, w')"
      using nt [of "cand_embedding c"] by blast+
    show ?thesis
      by (rule find_matching_candidates_embeds_candidate [OF h])
  qed
  show ?thesis
    by (rule conjI [OF t conjI [OF impI [OF A] conjI [OF impI [OF B] conjI [OF impI [OF C]
          conjI [OF impI [OF D] impI [OF E]]]]]])
qed


theorem empty_embedding_recomputed_witness:
  "cand_embedding (sample_candidate\<lparr>cand_embedding := Some []\<rparr>) = Some []
   \<and> job_embedding (sample_job\<lparr>job_embedding := Some []\<rparr>) = Some []
   \<and> extract_candidate_text (sample_candidate\<lparr>cand_embedding := Some []\<rparr>) \<noteq> []
   \<and> extract_job_text (sample_job\<lparr>job_embedding := Some []\<rparr>) \<noteq> []
   \<and> encode sample_env (extract_candidate_text (sample_candidate\<lparr>cand_embedding := Some []\<rparr>)) = Some [3, 4]
   \<and> encode sample_env (extract_job_text (sample_job\<lparr>job_embedding := Some []\<rparr>)) = Some [4, 3]
   \<and> find_ok sample_env \<and> update_ok sample_env
   \<and> object_id sample_env ''65f0a1b2c3d4e5f6012345aa'' = Some ''65f0a1b2c3d4e5f6012345aa''
   \<and> find (\<lambda>c. email c = ''ada@example.org'') (candidates sample_world_empty)
       = Some (sample_candidate\<lparr>cand_embedding := Some []\<rparr>)
   \<and> find (\<lambda>d. cand_id d = Some ''65f0a1b2c3d4e5f601234567'') (candidates sample_world_empty)
       = Some (sample_candidate\<lparr>cand_embedding := Some []\<rparr>)
   \<and> find (\<lambda>d. job_id d = Some ''65f0a1b2c3d4e5f6012345aa'') (jobs sample_world_empty)
       = Some (sample_job\<lparr>job_embedding := Some []\<rparr>)
   \<and> (\<exists>x w'. calculate_match_score sample_env (sample_candidate\<lparr>cand_embedding := Some []\<rparr>)
                 (sample_job\<lparr>job_embedding := Some []\<rparr>) sample_world_empty = (x, w')
          \<and> candidates w' = [sample_candidate\<lparr>cand_embedding := Some [3, 4]\<rparr>]
          \<and> calls sample_world_empty < calls w')
   \<and> (\<exists>x w'. calculate_match_score sample_env (sample_candidate\<lparr>cand_embedding := Some []\<rparr>)
                 (sample_job\<lparr>job_embedding := Some []\<rparr>) sample_world_empty = (x, w')
          \<and> jobs w' = [sample_job\<lparr>job_embedding := Some [4, 3]\<rparr>]
          \<and> calls sample_world_empty < calls w')
   \<and> (\<exists>x w'. find_matching_jobs_for_candidate sample_env ''ada@example.org'' 10 None sample_world_empty
                 = (x, w')
          \<and> candidates w' = [sample_candidate\<lparr>cand_embedding := Some [3, 4]\<rparr>]
          \<and> calls sample_world_empty < calls w')
   \<and> (\<exists>x w'. find_matching_candidates_for_job sample_env ''65f0a1b2c3d4e5f6012345aa'' 10
                 sample_world_empty = (x, w')
          \<and> jobs w' = [sample_job\<lparr>job_embedding := Some [4, 3]\<rparr>]
          \<and> calls sample_world_empty < calls w')
   \<and> find_matching_candidates_for_job sample_env ''65f0a1b2c3d4e5f6012345aa'' 10 sample_world_empty
       = (Inr [(sample_candidate\<lparr>cand_embedding := Some [3, 4]\<rparr>, 0.701)],
          \<lparr>candidates = [sample_candidate\<lparr>cand_embedding := Some [3, 4]\<rparr>],
           jobs = [sample_job\<lparr>job_embedding := Some [4, 3]\<rparr>], calls = 2\<rparr>)
   \<and> (\<exists>r. find (\<lambda>d. cand_id d = Some ''65f0a1b2c3d4e5f601234567'')
               (candidates \<lparr>candidates = [sample_candidate\<lparr>cand_embedding := Some [3, 4]\<rparr>],
                            jobs = [sample_job\<lparr>job_embedding := Some [4, 3]\<rparr>], calls = 2\<rparr>) = Some r
          \<and> cand_embedding r = Some [3, 4])"
proof -
  let ?ce = "sample_candidate\<lparr>cand_embedding := Some []\<rparr>"
  let ?je = "sample_job\<lparr>job_embedding := Some []\<rparr>"
  let ?ic = "''65f0a1b2c3d4e5f601234567''"
  let ?ij = "''65f0a1b2c3d4e5f6012345aa''"
  let ?W = "\<lparr>candidates = [sample_candidate\<lparr>cand_embedding := Some [3, 4]\<rparr>],
           jobs = [sample_job\<lparr>job_embedding := Some [4, 3]\<rparr>], calls = 2\<rparr>"
  have e: "cand_embedding ?ce = Some []" "job_embedding ?je = Some []"
    by simp_all
  have tx: "extract_candidate_text ?ce \<noteq> []" "extract_job_text ?je \<noteq> []"
    by (simp_all add: embedding_not_in_profile job_embedding_not_in_posting sample_text_parity)
  have en: "encode sample_env (extract_candidate_text ?ce) = Some [3, 4]"
    "encode sample_env (extract_job_text ?je) = Some [4, 3]"
    by (simp_all add: embedding_not_in_profile job_embedding_not_in_posting sample_encode)
  have ids: "cand_id ?ce = Some ?ic" "job_id ?je = Some ?ij"
    by (simp_all add: sample_ids)
  have fe: "find (\<lambda>c. email c = ''ada@example.org'') (candidates sample_world_empty) = Some ?ce"
    by (simp add: sample_world_empty_def sample_candidate_def)
  have fc: "find (\<lambda>d. cand_id d = Some ?ic) (candidates sample_world_empty) = Some ?ce"
    by (simp add: sample_world_empty_def sample_ids)
  have fj: "find (\<lambda>d. job_id d = Some ?ij) (jobs sample_world_empty) = Some ?je"
    by (simp add: sample_world_empty_def sample_ids)
  have mem: "?ce \<in> set (candidates sample_world_empty)"
    by (simp add: sample_world_empty_def)
  have uniq: "\<forall>r. r \<in> set (candidates sample_world_empty) \<and> cand_id r = Some ?ic
      \<longrightarrow> extract_candidate_text r = extract_candidate_text ?ce"
    by (simp add: sample_world_empty_def)
  have ne: "[3, 4 :: real] \<noteq> []" "[4, 3 :: real] \<noteq> []"
    by simp_all
  have cs: "set_first (\<lambda>d. cand_id d = Some ?ic) (\<lambda>d. d\<lparr>cand_embedding := Some [3, 4]\<rparr>)
      (candidates sample_world_empty) = [sample_candidate\<lparr>cand_embedding := Some [3, 4]\<rparr>]"
    by (simp add: sample_world_empty_def sample_ids)
  have js: "set_first (\<lambda>d. job_id d = Some ?ij) (\<lambda>d. d\<lparr>job_embedding := Some [4, 3]\<rparr>)
      (jobs sample_world_empty) = [sample_job\<lparr>job_embedding := Some [4, 3]\<rparr>]"
    by (simp add: sample_world_empty_def sample_ids)
  note T = empty_embedding_recomputed
    [where c = ?ce and j = ?je and en = sample_env and w = sample_world_empty
       and vc = "[3, 4]" and vj = "[4, 3]" and ic = ?ic and ij = ?ij and dc = ?ce and dj = ?je
       and e = "''ada@example.org''" and s = ?ij and top_n = 10 and src = None
       and res = "[(sample_candidate\<lparr>cand_embedding := Some [3, 4]\<rparr>, 0.701)]" and w' = ?W,
      THEN conjunct2]
  have A: "\<exists>x w'. calculate_match_score sample_env ?ce ?je sample_world_empty = (x, w')
          \<and> candidates w' = [sample_candidate\<lparr>cand_embedding := Some [3, 4]\<rparr>]
          \<and> calls sample_world_empty < calls w'"
    using T [THEN conjunct1, rule_format,
        OF conjI [OF tx(1) conjI [OF tx(2) conjI [OF en(1) conjI [OF ids(1) conjI [OF sample_ids(3)
          conjI [OF sample_ids(4) conjI [OF fc disjI1 [OF e(1)]]]]]]]]]
    unfolding cs by blast
  have B: "\<exists>x w'. calculate_match_score sample_env ?ce ?je sample_world_empty = (x, w')
          \<and> jobs w' = [sample_job\<lparr>job_embedding := Some [4, 3]\<rparr>]
          \<and> calls sample_world_empty < calls w'"
    using T [THEN conjunct2, THEN conjunct1, rule_format,
        OF conjI [OF tx(1) conjI [OF tx(2) conjI [OF en(1) conjI [OF en(2) conjI [OF ids(2)
          conjI [OF sample_ids(3) conjI [OF sample_ids(4) conjI [OF fj disjI1 [OF e(2)]]]]]]]]]]
    unfolding js by blast
  have C: "\<exists>x w'. find_matching_jobs_for_candidate sample_env ''ada@example.org'' 10 None sample_world_empty
                 = (x, w')
          \<and> candidates w' = [sample_candidate\<lparr>cand_embedding := Some [3, 4]\<rparr>]
          \<and> calls sample_world_empty < calls w'"
    using T [THEN conjunct2, THEN conjunct2, THEN conjunct1, rule_format,
        OF conjI [OF sample_ids(3) conjI [OF sample_ids(4) conjI [OF fe conjI [OF disjI1 [OF e(1)]
          conjI [OF ids(1) conjI [OF fc conjI [OF tx(1) conjI [OF en(1) ne(1)]]]]]]]]]
    unfolding cs by blast
  have D: "\<exists>x w'. find_matching_candidates_for_job sample_env ?ij 10 sample_world_empty = (x, w')
          \<and> jobs w' = [sample_job\<lparr>job_embedding := Some [4, 3]\<rparr>]
          \<and> calls sample_world_empty < calls w'"
    using T [THEN conjunct2, THEN conjunct2, THEN conjunct2, THEN conjunct1, rule_format,
        OF conjI [OF sample_ids(3) conjI [OF sample_ids(4) conjI [OF sample_ids(5) conjI [OF fj
          conjI [OF disjI1 [OF e(2)] conjI [OF tx(2) conjI [OF en(2) ne(2)]]]]]]]]
    unfolding js by blast
  have E: "\<exists>r. find (\<lambda>d. cand_id d = Some ?ic) (candidates ?W) = Some r \<and> cand_embedding r = Some [3, 4]"
    by (rule T [THEN conjunct2, THEN conjunct2, THEN conjunct2, THEN conjunct2, rule_format,
        OF conjI [OF sample_ids(3) conjI [OF sample_ids(4) conjI [OF sample_ids(5) conjI [OF fj
          conjI [OF mem conjI [OF disjI1 [OF e(1)] conjI [OF ids(1) conjI [OF uniq conjI [OF tx(1)
            conjI [OF en(1) sample_empty_search]]]]]]]]]]])
  show ?thesis
    by (intro conjI e tx en sample_ids(3,4,5) fe fc fj A B C D sample_empty_search E)
qed

end
